theory Spec2Isabelle
  imports Main "HOL-Library.Sublist"
begin

section \<open>Data of the application\<close>

text \<open>
  The program is one Streamlit script, \<^verbatim>\<open>streamlit_app.py\<close>. Its state is the session
  dictionary \<^verbatim>\<open>st.session_state\<close> (keys \<^verbatim>\<open>messages\<close>, \<^verbatim>\<open>vector_db\<close>, \<^verbatim>\<open>file_upload\<close>,
  \<^verbatim>\<open>pdf_pages\<close>) and the directory \<^verbatim>\<open>chroma_db\<close> on disk. Everything the script does beyond
  changing these (logging, sleeping, removing directories, showing messages, asking the
  retriever and the language model) is recorded as an event, in program order.
\<close>

datatype error = PdfError | ProviderError | StoreError | ValueError | KeyError | NameError

text \<open>A langchain \<^verbatim>\<open>Document\<close>: the text and the \<^verbatim>\<open>source\<close> entry of its metadata.\<close>

record document =
  page_content :: string
  doc_source :: string

text \<open>
  An uploaded file: its name and what pdfplumber finds in it. \<^verbatim>\<open>page.extract_text()\<close> gives
  a string or \<^verbatim>\<open>None\<close> for each page; a file pdfplumber cannot open is \<open>Unreadable\<close>.
\<close>

datatype pdf = Unreadable | Pages "string option list"

record upload =
  up_name :: string
  up_pdf :: pdf

type_synonym vec = "int list"
type_synonym entry = "document \<times> vec"

text \<open>
  The directory \<^verbatim>\<open>chroma_db\<close>. The script only ever names the collection \<^verbatim>\<open>myRAG\<close>, so the
  directory is absent (\<open>NoDir\<close>), present without that collection (\<open>Dir None\<close>) or present
  with the collection and its entries (\<open>Dir (Some es)\<close>).
\<close>

datatype storage = NoDir | Dir "entry list option"

datatype role = User | Assistant

record message =
  msg_role :: role
  msg_content :: string

datatype level = INFO | WARNING | ERROR

text \<open>The prompt of the answer chain: the template of \<^verbatim>\<open>process_question\<close> filled in.\<close>

datatype prompt = AnswerPrompt "document list" string

datatype event =
    Log level string
  | Sleep nat
  | Rmtree string bool
  | StSuccess string
  | StWarning string
  | StError string
  | StMarkdown string
  | ChatMessage role string
  | MultiQuery string
  | LLMCall string prompt

text \<open>
  A session key that is absent is \<open>None\<close>; \<^verbatim>\<open>vector_db\<close> present with the value \<^verbatim>\<open>None\<close> is
  \<open>Some None\<close>. The handle stored under \<^verbatim>\<open>vector_db\<close> is the \<^verbatim>\<open>Chroma\<close> object, which is
  known by its collection name. \<open>tmp\<close> lists the files staged in temporary directories.
  \<open>client_cached\<close> belongs to the process, not to the session: it says that the process
  has already opened a chromadb client on the path.
\<close>

record state =
  messages :: "message list option"
  vector_db :: "string option option"
  file_upload :: "upload option"
  pdf_pages :: "nat list option"
  chroma_db :: storage
  tmp :: "string list"
  client_cached :: bool
  events :: "event list"

text \<open>
  What the script cannot decide itself: the libraries it calls and the outcome of each
  call that may raise. \<open>split_text\<close> is the text splitter configured with
  \<^verbatim>\<open>chunk_size=7500, chunk_overlap=100\<close>, \<open>embed\<close> the embedding provider (\<open>None\<close> when it
  fails), \<open>retriever\<close> the multi-query retriever over the documents of the collection and
  \<open>llm\<close> the chat model. The flags say whether the corresponding call returns (\<open>True\<close>) or
  raises: \<^verbatim>\<open>shutil.rmtree\<close> at lines 88, 138, 218 and 225, the client calls at lines 210
  to 213, \<^verbatim>\<open>delete_collection\<close> at line 214, the vector store at line 121 (\<open>store_ok\<close>) and
  the drawing of the pages at lines 195 and 196 (\<open>render_ok\<close>). A failed \<^verbatim>\<open>rmtree\<close> leaves
  the directory as it was. \<open>written_before_failure\<close> is the number of entries the vector
  store has written at most when the provider fails on a later chunk: how the library
  batches embedding and writing is not the script's to decide (0 when every text is
  embedded before anything is written).
\<close>

record env =
  split_text :: "string \<Rightarrow> string list"
  embed :: "string \<Rightarrow> vec option"
  retriever :: "string \<Rightarrow> document list \<Rightarrow> error + document list"
  llm :: "string \<Rightarrow> prompt \<Rightarrow> error + string"
  rmtree_create_ok :: bool
  rmtree_temp_ok :: bool
  client_ok :: bool
  delete_collection_ok :: bool
  rmtree_delete_ok :: bool
  rmtree_retry_ok :: bool
  store_ok :: bool
  written_before_failure :: nat
  render_ok :: bool

text \<open>The text \<^verbatim>\<open>st.error\<close> shows for an exception.\<close>

fun error_text :: "error \<Rightarrow> string" where
  "error_text PdfError = ''PdfError''"
| "error_text ProviderError = ''ProviderError''"
| "error_text StoreError = ''StoreError''"
| "error_text ValueError = ''ValueError''"
| "error_text KeyError = ''KeyError''"
| "error_text NameError = ''NameError''"

section \<open>Effects\<close>

definition logger :: "level \<Rightarrow> string \<Rightarrow> state \<Rightarrow> state" where
  "logger l m s = s\<lparr>events := events s @ [Log l m]\<rparr>"

definition emit :: "event \<Rightarrow> state \<Rightarrow> state" where
  "emit ev s = s\<lparr>events := events s @ [ev]\<rparr>"

text \<open>\<^verbatim>\<open>time.sleep\<close>, in milliseconds.\<close>

definition sleep :: "nat \<Rightarrow> state \<Rightarrow> state" where
  "sleep ms s = emit (Sleep ms) s"

text \<open>\<^verbatim>\<open>shutil.rmtree("chroma_db")\<close>: the result says whether it returned.\<close>

definition rmtree :: "bool \<Rightarrow> state \<Rightarrow> bool \<times> state" where
  "rmtree ok s =
     (ok, emit (Rmtree ''chroma_db'' ok)
            (s\<lparr>chroma_db := (if ok then NoDir else chroma_db s)\<rparr>))"

text \<open>
  \<^verbatim>\<open>get_chroma_client\<close>: a persistent client on the path \<^verbatim>\<open>chroma_db\<close>. The library keeps
  one client per path in a process: the first call opens it and creates the directory when
  it is absent; every later call hands back that client and creates nothing, also when the
  directory has been removed in between. At line 95, outside every \<^verbatim>\<open>try\<close>, the call is
  taken to return.
\<close>

definition get_chroma_client :: "state \<Rightarrow> state" where
  "get_chroma_client s =
     (if client_cached s then s
      else s\<lparr>chroma_db := (case chroma_db s of NoDir \<Rightarrow> Dir None | Dir c \<Rightarrow> Dir c),
             client_cached := True\<rparr>)"

section \<open>Deleting the index\<close>

text \<open>
  Lines 209 to 219 of \<^verbatim>\<open>delete_vector_db\<close>, the body of the inner \<^verbatim>\<open>try\<close>: the result is
  \<open>False\<close> when one of its calls raised.
\<close>

definition remove_directory :: "env \<Rightarrow> state \<Rightarrow> bool \<times> state" where
  "remove_directory e s =
     (case rmtree (rmtree_delete_ok e) s of
        (True, t) \<Rightarrow> (True, logger INFO ''Removed chroma_db directory'' t)
      | (False, t) \<Rightarrow> (False, t))"

definition first_attempt :: "env \<Rightarrow> state \<Rightarrow> bool \<times> state" where
  "first_attempt e s =
     (if \<not> client_ok e then (False, s)
      else (let s1 = get_chroma_client s
            in (case chroma_db s1 of
                  Dir (Some es) \<Rightarrow>
                    (if delete_collection_ok e
                     then remove_directory e
                            (logger INFO ''Deleted myRAG collection''
                               (s1\<lparr>chroma_db := Dir None\<rparr>))
                     else (False, s1))
                | _ \<Rightarrow> remove_directory e s1)))"

text \<open>Lines 220 to 228: the handler of the inner \<^verbatim>\<open>try\<close>, with its one retry.\<close>

definition retry_removal :: "env \<Rightarrow> state \<Rightarrow> state" where
  "retry_removal e s =
     (let s1 = sleep 2000 (logger ERROR ''Error cleaning up chroma_db'' s)
      in (case rmtree (rmtree_retry_ok e) s1 of
            (True, t) \<Rightarrow> logger INFO ''Removed chroma_db directory after retry'' t
          | (False, t) \<Rightarrow>
              logger ERROR ''Failed to remove chroma_db directory after retry'' t))"

text \<open>Lines 207 to 228: the cleanup of the directory, when there is one.\<close>

definition clean_up_directory :: "env \<Rightarrow> state \<Rightarrow> state" where
  "clean_up_directory e s =
     (if chroma_db s \<noteq> NoDir
      then (case first_attempt e s of
              (True, t) \<Rightarrow> t
            | (False, t) \<Rightarrow> retry_removal e t)
      else s)"

text \<open>Lines 230 to 239: the session keys are popped and success is reported.\<close>

definition clear_session :: "state \<Rightarrow> state" where
  "clear_session s =
     (let s1 = s\<lparr>pdf_pages := None, file_upload := None, vector_db := None\<rparr>;
          s2 = emit (StSuccess ''Collection and temporary files deleted successfully.'') s1;
          s3 = logger INFO ''Vector DB and related session state cleared'' s2
      in sleep 1000 s3)"

text \<open>
  \<^verbatim>\<open>delete_vector_db\<close>. It ends in \<^verbatim>\<open>st.rerun()\<close>, which stops the script run; nothing
  in the outer \<^verbatim>\<open>try\<close> raises an \<^verbatim>\<open>Exception\<close> in this model, so its handler (line 242)
  is never entered.
\<close>

definition delete_vector_db :: "env \<Rightarrow> state \<Rightarrow> state" where
  "delete_vector_db e s =
     clear_session (clean_up_directory e (logger INFO ''Deleting vector DB'' s))"

text \<open>The events an operation added.\<close>

definition new_events :: "state \<Rightarrow> state \<Rightarrow> event list" where
  "new_events s s' = drop (length (events s)) (events s')"

fun is_error :: "event \<Rightarrow> bool" where
  "is_error (StError m) = True"
| "is_error ev = False"

fun is_rmtree :: "event \<Rightarrow> bool" where
  "is_rmtree (Rmtree p ok) = True"
| "is_rmtree ev = False"

text \<open>
  An operation reported success to the user: it showed the success message and no error.
\<close>

definition reports_success :: "state \<Rightarrow> state \<Rightarrow> bool" where
  "reports_success s s' =
     (StSuccess ''Collection and temporary files deleted successfully.'' \<in> set (new_events s s')
      \<and> \<not> list_ex is_error (new_events s s'))"

section \<open>Building the index\<close>

text \<open>
  \<^verbatim>\<open>extract_text_from_pdf\<close>: the texts of the pages, one after the other, a page without
  text counting as the empty string.
\<close>

definition extract_text_from_pdf :: "pdf \<Rightarrow> error + string" where
  "extract_text_from_pdf p =
     (case p of
        Unreadable \<Rightarrow> Inl PdfError
      | Pages ps \<Rightarrow>
          Inr (foldl (\<lambda>text page. text @ (case page of None \<Rightarrow> [] | Some t \<Rightarrow> t)) [] ps))"

text \<open>
  The embedding of the chunks, in order: the entries of the chunks before the first one the
  provider fails on, and whether the provider got through all of them.
\<close>

fun embed_documents :: "(string \<Rightarrow> vec option) \<Rightarrow> document list \<Rightarrow> entry list \<times> bool" where
  "embed_documents f [] = ([], True)"
| "embed_documents f (d # ds) =
     (case f (page_content d) of
        None \<Rightarrow> ([], False)
      | Some v \<Rightarrow> (case embed_documents f ds of (es, ok) \<Rightarrow> ((d, v) # es, ok)))"

text \<open>
  \<^verbatim>\<open>Chroma.from_documents\<close> with the collection name \<^verbatim>\<open>myRAG\<close> (a library call). The store
  raises when it fails by itself or when its client finds no directory (a cached client
  after the directory was removed). Otherwise the collection is opened, created when the
  directory does not hold it. An empty list of chunks is refused. The chunks are embedded
  and added to the collection; when the provider fails on a chunk, its error propagates
  and the store keeps what it had written of the chunks before. The result is the handle,
  known by the collection name.
\<close>

definition get_or_create_collection :: "state \<Rightarrow> state" where
  "get_or_create_collection s =
     s\<lparr>chroma_db := (case chroma_db s of Dir (Some es) \<Rightarrow> Dir (Some es) | _ \<Rightarrow> Dir (Some []))\<rparr>"

definition add_entries :: "entry list \<Rightarrow> state \<Rightarrow> state" where
  "add_entries new s =
     s\<lparr>chroma_db := (case chroma_db s of Dir (Some es) \<Rightarrow> Dir (Some (es @ new)) | c \<Rightarrow> c)\<rparr>"

definition from_documents :: "env \<Rightarrow> document list \<Rightarrow> state \<Rightarrow> (error + string) \<times> state" where
  "from_documents e docs s =
     (if \<not> store_ok e \<or> chroma_db s = NoDir then (Inl StoreError, s)
      else (let s1 = get_or_create_collection s
            in if docs = [] then (Inl ValueError, s1)
               else (case embed_documents (embed e) docs of
                       (es, True) \<Rightarrow> (Inr ''myRAG'', add_entries es s1)
                     | (es, False) \<Rightarrow>
                         (Inl ProviderError,
                          add_entries (take (written_before_failure e) es) s1))))"

text \<open>
  \<^verbatim>\<open>text_splitter.split_documents([doc])\<close>: every chunk of the text becomes a document
  with the metadata of \<^verbatim>\<open>doc\<close>.
\<close>

definition split_documents :: "env \<Rightarrow> document \<Rightarrow> document list" where
  "split_documents e doc =
     map (\<lambda>c. \<lparr>page_content = c, doc_source = doc_source doc\<rparr>) (split_text e (page_content doc))"

text \<open>Lines 85 to 92 of \<^verbatim>\<open>create_vector_db\<close>: the attempt to remove an existing directory.\<close>

definition clean_up_existing :: "env \<Rightarrow> state \<Rightarrow> state" where
  "clean_up_existing e s =
     (if chroma_db s \<noteq> NoDir
      then (case rmtree (rmtree_create_ok e) s of
              (True, t) \<Rightarrow> sleep 500 (logger INFO ''Removed existing chroma_db'' t)
            | (False, t) \<Rightarrow> logger WARNING ''Could not remove existing directory'' t)
      else s)"

text \<open>
  Lines 98 to 133, the body of the \<^verbatim>\<open>try\<close>. The upload is staged in a temporary file
  (creating and writing it is taken to succeed); extraction and the vector store may raise.
\<close>

definition build_index :: "env \<Rightarrow> upload \<Rightarrow> state \<Rightarrow> (error + string) \<times> state" where
  "build_index e f s =
     (let s1 = logger INFO ''File saved to temporary path'' (s\<lparr>tmp := up_name f # tmp s\<rparr>);
          s2 = logger INFO ''Extracting text from PDF'' s1
      in (case extract_text_from_pdf (up_pdf f) of
            Inl err \<Rightarrow> (Inl err, s2)
          | Inr text \<Rightarrow>
              (let doc = \<lparr>page_content = text, doc_source = up_name f\<rparr>;
                   chunks = split_documents e doc;
                   s3 = logger INFO ''Document split into chunks'' s2
               in (case from_documents e chunks s3 of
                     (Inl err, t) \<Rightarrow> (Inl err, t)
                   | (Inr h, t) \<Rightarrow> (Inr h, logger INFO ''Vector DB created and persisted'' t)))))"

text \<open>Lines 135 to 141, the \<^verbatim>\<open>finally\<close>: it runs on both ways out of the \<^verbatim>\<open>try\<close>.\<close>

definition remove_temp :: "env \<Rightarrow> upload \<Rightarrow> state \<Rightarrow> state" where
  "remove_temp e f s =
     (if rmtree_temp_ok e
      then logger INFO ''Temporary directory removed'' (s\<lparr>tmp := remove1 (up_name f) (tmp s)\<rparr>)
      else logger WARNING ''Error removing temp directory'' s)"

text \<open>
  \<^verbatim>\<open>create_vector_db\<close>: the cleanup, the client, the body of the \<^verbatim>\<open>try\<close> and the \<^verbatim>\<open>finally\<close>.
  The resource cache of the decorator is left out: the body is taken to run on every call,
  as it does for a file the function has not returned an index for.
\<close>

definition create_vector_db :: "env \<Rightarrow> upload \<Rightarrow> state \<Rightarrow> (error + string) \<times> state" where
  "create_vector_db e f s =
     (let s1 = clean_up_existing e (logger INFO ''Creating vector DB from file upload'' s);
          s2 = get_chroma_client s1
      in (case build_index e f s2 of (r, t) \<Rightarrow> (r, remove_temp e f t)))"

section \<open>Answering a question\<close>

text \<open>The documents held by the collection a handle refers to: what a search can return.\<close>

definition collection_entries :: "state \<Rightarrow> entry list" where
  "collection_entries s = (case chroma_db s of Dir (Some es) \<Rightarrow> es | _ \<Rightarrow> [])"

definition search_space :: "state \<Rightarrow> document list" where
  "search_space s = map fst (collection_entries s)"

text \<open>
  \<^verbatim>\<open>process_question\<close>: the chain asks the multi-query retriever for the context, fills the
  template and asks the chat model once. An error of either propagates.
\<close>

definition process_question :: "env \<Rightarrow> string \<Rightarrow> string \<Rightarrow> state \<Rightarrow> (error + string) \<times> state" where
  "process_question e question selected_model s =
     (let s1 = emit (MultiQuery question) (logger INFO ''Processing question'' s)
      in (case retriever e question (search_space s1) of
            Inl err \<Rightarrow> (Inl err, s1)
          | Inr ctx \<Rightarrow>
              (let p = AnswerPrompt ctx question;
                   s2 = emit (LLMCall selected_model p) s1
               in (case llm e selected_model p of
                     Inl err \<Rightarrow> (Inl err, s2)
                   | Inr response \<Rightarrow>
                       (Inr response,
                        logger INFO ''Question processed and response generated'' s2)))))"

section \<open>One run of the script\<close>

text \<open>
  The widgets of one run of \<^verbatim>\<open>main\<close>: the uploaded file, the delete button, the chat
  input and the selected model (\<open>None\<close> when no model is available, in which case line 264
  never binds \<^verbatim>\<open>selected_model\<close>).
\<close>

record widgets =
  w_upload :: "upload option"
  w_delete :: bool
  w_prompt :: "string option"
  w_model :: "string option"

datatype run_end = Finished | Rerun | Crashed error

text \<open>Lines 257 to 261.\<close>

definition init_session :: "state \<Rightarrow> state" where
  "init_session s =
     s\<lparr>messages := (case messages s of None \<Rightarrow> Some [] | Some ms \<Rightarrow> Some ms),
       vector_db := (case vector_db s of None \<Rightarrow> Some None | Some v \<Rightarrow> Some v)\<rparr>"

text \<open>
  \<^verbatim>\<open>extract_all_pages_as_images\<close>: one image per page, here the page numbers. Opening
  the file and drawing its pages is a library call of its own, which may raise on a file
  whose text could be extracted. The result cache of the decorator is left out: the body
  is taken to run on every call.
\<close>

definition extract_all_pages_as_images :: "env \<Rightarrow> upload \<Rightarrow> state \<Rightarrow> (error + nat list) \<times> state" where
  "extract_all_pages_as_images e f s =
     (let s1 = logger INFO ''Extracting all pages as images from file'' s
      in (case up_pdf f of
            Unreadable \<Rightarrow> (Inl PdfError, s1)
          | Pages ps \<Rightarrow>
              (if render_ok e
               then (Inr [0..<length ps], logger INFO ''PDF pages extracted as images'' s1)
               else (Inl PdfError, s1))))"

text \<open>
  Lines 272 to 279: the index is built only while the session holds none. The zoom slider
  and the drawing of the pages change nothing and are left out.
\<close>

definition ingest :: "env \<Rightarrow> upload \<Rightarrow> state \<Rightarrow> (error + unit) \<times> state" where
  "ingest e f s =
     (let s1 = s\<lparr>file_upload := Some f\<rparr>
      in (case vector_db s1 of
            None \<Rightarrow> (Inl KeyError, s1)
          | Some None \<Rightarrow>
              (case create_vector_db e f s1 of
                 (Inl err, t) \<Rightarrow> (Inl err, t)
               | (Inr h, t) \<Rightarrow> (Inr (), t\<lparr>vector_db := Some (Some h)\<rparr>))
          | Some (Some h) \<Rightarrow> (Inr (), s1)))"

definition upload_section :: "env \<Rightarrow> upload \<Rightarrow> state \<Rightarrow> (error + unit) \<times> state" where
  "upload_section e f s =
     (case ingest e f s of
        (Inl err, t) \<Rightarrow> (Inl err, t)
      | (Inr u, t) \<Rightarrow>
          (case extract_all_pages_as_images e f t of
             (Inl err, t') \<Rightarrow> (Inl err, t')
           | (Inr pages, t') \<Rightarrow> (Inr (), t'\<lparr>pdf_pages := Some pages\<rparr>)))"

text \<open>\<^verbatim>\<open>st.session_state["messages"].append(...)\<close>\<close>

definition append_message :: "role \<Rightarrow> string \<Rightarrow> state \<Rightarrow> error + state" where
  "append_message r c s =
     (case messages s of
        None \<Rightarrow> Inl KeyError
      | Some ms \<Rightarrow> Inr (s\<lparr>messages := Some (ms @ [\<lparr>msg_role = r, msg_content = c\<rparr>])\<rparr>))"

text \<open>
  Lines 305 to 321, the body of the \<^verbatim>\<open>try\<close> around a prompt: \<open>Inl\<close> is the exception that
  leaves it, with the state at that point.
\<close>

definition answer_prompt :: "env \<Rightarrow> widgets \<Rightarrow> string \<Rightarrow> state \<Rightarrow> error \<times> state + state" where
  "answer_prompt e w p s =
     (case append_message User p s of
        Inl err \<Rightarrow> Inl (err, s)
      | Inr s1 \<Rightarrow>
          (let s2 = emit (ChatMessage User p) s1
           in (case vector_db s2 of
                 None \<Rightarrow> Inl (KeyError, s2)
               | Some None \<Rightarrow> Inr (emit (StWarning ''Please upload a PDF file first.'') s2)
               | Some (Some h) \<Rightarrow>
                   (case w_model w of
                      None \<Rightarrow> Inl (NameError, s2)
                    | Some m \<Rightarrow>
                        (case process_question e p m s2 of
                           (Inl err, t) \<Rightarrow> Inl (err, t)
                         | (Inr response, t) \<Rightarrow>
                             (case append_message Assistant response
                                     (emit (StMarkdown response) t) of
                                Inl err \<Rightarrow> Inl (err, emit (StMarkdown response) t)
                              | Inr t' \<Rightarrow> Inr t'))))))"

text \<open>
  Lines 295 to 328: the history is drawn, then a prompt (a non-empty chat input) is
  answered; an exception is shown and logged, and the run goes on.
\<close>

definition chat_section :: "env \<Rightarrow> widgets \<Rightarrow> state \<Rightarrow> run_end \<times> state" where
  "chat_section e w s =
     (case messages s of
        None \<Rightarrow> (Crashed KeyError, s)
      | Some ms \<Rightarrow>
          (let s1 = s\<lparr>events := events s @ map (\<lambda>m. ChatMessage (msg_role m) (msg_content m)) ms\<rparr>
           in (case w_prompt w of
                 Some (c # cs) \<Rightarrow>
                   (case answer_prompt e w (c # cs) s1 of
                      Inl (err, t) \<Rightarrow>
                        (Finished, logger ERROR ''Error processing prompt''
                                     (emit (StError (error_text err)) t))
                    | Inr t \<Rightarrow> (Finished, t))
               | _ \<Rightarrow>
                   (case vector_db s1 of
                      None \<Rightarrow> (Crashed KeyError, s1)
                    | Some None \<Rightarrow>
                        (Finished, emit (StWarning ''Upload a PDF file to begin chat...'') s1)
                    | Some (Some h) \<Rightarrow> (Finished, s1)))))"

text \<open>
  \<^verbatim>\<open>main\<close>, one run of the script. An exception that leaves \<^verbatim>\<open>main\<close> ends the run
  (\<open>Crashed\<close>); \<^verbatim>\<open>delete_vector_db\<close> ends it by asking for a rerun. The enumeration of
  the models at lines 252 and 253 is taken as given: its outcome is the widget \<open>w_model\<close>.
\<close>

definition main :: "env \<Rightarrow> widgets \<Rightarrow> state \<Rightarrow> run_end \<times> state" where
  "main e w s =
     (let s1 = init_session s
      in (case (case w_upload w of None \<Rightarrow> (Inr (), s1) | Some f \<Rightarrow> upload_section e f s1) of
            (Inl err, t) \<Rightarrow> (Crashed err, t)
          | (Inr u, t) \<Rightarrow>
              (if w_delete w then (Rerun, delete_vector_db e t) else chat_section e w t)))"

text \<open>The session holds an index: \<^verbatim>\<open>st.session_state["vector_db"] is not None\<close>.\<close>

definition index_ready :: "state \<Rightarrow> bool" where
  "index_ready s = (case vector_db s of Some (Some h) \<Rightarrow> True | _ \<Rightarrow> False)"

text \<open>The state of a fresh process: no session key, no directory, no client, nothing logged.\<close>

definition fresh :: state where
  "fresh = \<lparr>messages = None, vector_db = None, file_upload = None, pdf_pages = None,
            chroma_db = NoDir, tmp = [], client_cached = False, events = []\<rparr>"

text \<open>
  The chunks line 114 computes for an upload (none when the text cannot be extracted), and
  the ways a step of the build fails: the extraction raises, the vector store raises by
  itself or because the cached client finds no directory, there is no chunk, or the
  embedding provider fails on some chunk.
\<close>

definition chunks_of :: "env \<Rightarrow> upload \<Rightarrow> document list" where
  "chunks_of e f =
     (case extract_text_from_pdf (up_pdf f) of
        Inl err \<Rightarrow> []
      | Inr body \<Rightarrow> split_documents e \<lparr>page_content = body, doc_source = up_name f\<rparr>)"

definition build_step_fails :: "env \<Rightarrow> upload \<Rightarrow> state \<Rightarrow> bool" where
  "build_step_fails e f s =
     (isl (extract_text_from_pdf (up_pdf f)) \<or> \<not> store_ok e \<or>
      (client_cached s \<and> (chroma_db s = NoDir \<or> rmtree_create_ok e)) \<or>
      chunks_of e f = [] \<or>
      list_ex (\<lambda>d. embed e (page_content d) = None) (chunks_of e f))"

text \<open>The conversation history, empty while the key is absent.\<close>

definition history :: "state \<Rightarrow> message list" where
  "history s = (case messages s of None \<Rightarrow> [] | Some ms \<Rightarrow> ms)"

text \<open>An event that asks the language model: the retriever's query expansion or the answer.\<close>

fun is_model_call :: "event \<Rightarrow> bool" where
  "is_model_call (MultiQuery q) = True"
| "is_model_call (LLMCall m p) = True"
| "is_model_call ev = False"

section \<open>Concrete environments and inputs\<close>

text \<open>
  Used where a statement is evaluated at a concrete input. In \<open>all_ok\<close> every call
  returns; in \<open>files_locked\<close> every \<^verbatim>\<open>rmtree\<close> of the directory raises (the locked files
  of the comment at line 222); in \<open>store_locked\<close> the client raises as well; in
  \<open>provider_down\<close> the embedding provider fails on every text; in \<open>provider_flaky\<close> the
  splitter cuts after four characters and the provider fails on the second chunk of
  \<open>doc3\<close>.
\<close>

definition all_ok :: env where
  "all_ok = \<lparr>split_text = (\<lambda>t. [t]), embed = (\<lambda>t. Some []),
              retriever = (\<lambda>q ds. Inr ds), llm = (\<lambda>m p. Inr ''answer''),
              rmtree_create_ok = True, rmtree_temp_ok = True, client_ok = True,
              delete_collection_ok = True, rmtree_delete_ok = True, rmtree_retry_ok = True,
              store_ok = True, written_before_failure = 0, render_ok = True\<rparr>"

definition files_locked :: env where
  "files_locked = all_ok\<lparr>rmtree_create_ok := False, rmtree_delete_ok := False,
                         rmtree_retry_ok := False\<rparr>"

definition store_locked :: env where
  "store_locked = files_locked\<lparr>client_ok := False\<rparr>"

definition provider_down :: env where
  "provider_down = all_ok\<lparr>embed := (\<lambda>t. None)\<rparr>"

definition provider_flaky :: env where
  "provider_flaky = all_ok\<lparr>split_text := (\<lambda>t. [take 4 t, drop 4 t]),
                           embed := (\<lambda>t. if t = ''bad'' then None else Some [])\<rparr>"

definition doc3 :: upload where
  "doc3 = \<lparr>up_name = ''c.pdf'', up_pdf = Pages [Some ''good'', Some ''bad'']\<rparr>"

definition doc1 :: upload where
  "doc1 = \<lparr>up_name = ''a.pdf'', up_pdf = Pages [Some ''alpha'']\<rparr>"

definition doc2 :: upload where
  "doc2 = \<lparr>up_name = ''b.pdf'', up_pdf = Pages [Some ''beta'', None]\<rparr>"

definition upload_of :: "upload \<Rightarrow> widgets" where
  "upload_of f = \<lparr>w_upload = Some f, w_delete = False, w_prompt = None,
                  w_model = Some ''llama3''\<rparr>"

definition press_delete :: "upload option \<Rightarrow> widgets" where
  "press_delete f = \<lparr>w_upload = f, w_delete = True, w_prompt = None,
                     w_model = Some ''llama3''\<rparr>"

definition say :: "string \<Rightarrow> widgets" where
  "say p = \<lparr>w_upload = None, w_delete = False, w_prompt = Some p, w_model = Some ''llama3''\<rparr>"

text \<open>The state after the first document was uploaded to a fresh process.\<close>

definition indexed :: state where
  "indexed = snd (main all_ok (upload_of doc1) fresh)"

text \<open>The same process after a deletion whose cleanup failed: the directory of \<open>indexed\<close>
  survived, the client is still cached and the session holds no index.\<close>

definition stale :: state where
  "stale = init_session (delete_vector_db store_locked indexed)"

text \<open>A new process started on the directory that \<open>indexed\<close> left on disk.\<close>

definition restarted :: state where
  "restarted = init_session (fresh\<lparr>chroma_db := chroma_db indexed\<rparr>)"

section \<open>The Chunker of the specification\<close>

text \<open>
  The script does not split the text itself: line 113 configures langchain's
  \<^verbatim>\<open>RecursiveCharacterTextSplitter\<close> with \<^verbatim>\<open>chunk_size=7500, chunk_overlap=100\<close>, and the code
  of that class is not part of the repository. The definitions of this section follow the
  words of the specification (the Chunk of its data model and the contract of its
  Chunker); what is proved of them is proved of that description, not of the library.
\<close>

datatype config_error = ConfigurationError

text \<open>Modelled from the spec: the TextBlock, extracted plain text plus its source document
  name.\<close>

record textblock =
  tb_text :: string
  tb_source :: string

text \<open>Modelled from the spec: the Chunk, a substring of a TextBlock given by its start
  offset and length, with the source as metadata.\<close>

record chunk =
  start_offset :: nat
  chunk_length :: nat
  chunk_source :: string

definition mk_chunk :: "string \<Rightarrow> nat \<times> nat \<Rightarrow> chunk" where
  "mk_chunk src w = \<lparr>start_offset = fst w, chunk_length = snd w, chunk_source = src\<rparr>"

text \<open>Modelled from the spec: the deterministic sliding window of the Chunk invariant over a
  text of \<open>n\<close> units, as (start, length) pairs. A window has the maximum size, the next one
  starts \<open>overlap\<close> units before its end, and the window that reaches the end of the text is
  the last and may be shorter. The library class that does the splitting is not in the
  repository.\<close>

function windows :: "nat \<Rightarrow> nat \<Rightarrow> nat \<Rightarrow> nat \<Rightarrow> (nat \<times> nat) list" where
  "windows n max_size overlap start =
     (if overlap < max_size \<and> start + max_size < n
      then (start, max_size) # windows n max_size overlap (start + (max_size - overlap))
      else [(start, n - start)])"
  by pat_completeness auto
termination
  by (relation "measure (\<lambda>(n, max_size, overlap, start). n - start)") auto

declare windows.simps [simp del]

text \<open>Modelled from the spec: \<^verbatim>\<open>split(textblock, max_size, overlap)\<close> of the Chunker, which
  fails fast on \<^verbatim>\<open>overlap >= max_size\<close>. The splitter the script calls is a library class
  that is not in the repository.\<close>

definition split :: "textblock \<Rightarrow> nat \<Rightarrow> nat \<Rightarrow> config_error + chunk list" where
  "split tb max_size overlap =
     (if overlap \<ge> max_size then Inl ConfigurationError
      else Inr (map (mk_chunk (tb_source tb))
                  (windows (length (tb_text tb)) max_size overlap 0)))"

text \<open>Modelled from the spec: the Chunker as configured, \<^verbatim>\<open>max_size=7500, overlap=100\<close>.\<close>

definition chunker :: "textblock \<Rightarrow> config_error + chunk list" where
  "chunker tb = split tb 7500 100"

text \<open>The span of the text that underlies a chunk.\<close>

definition span :: "string \<Rightarrow> chunk \<Rightarrow> string" where
  "span T c = take (chunk_length c) (drop (start_offset c) T)"

text \<open>The number of units the span of a chunk shares with the span of the next one.\<close>

definition shared :: "chunk \<Rightarrow> chunk \<Rightarrow> nat" where
  "shared c d = start_offset c + chunk_length c - start_offset d"

text \<open>
  The spans of the chunks after \<open>prev\<close>, one after the other, each without the part it
  shares with its predecessor; \<open>reconstruct\<close> puts the span of the first chunk in front.
\<close>

fun without_overlaps :: "string \<Rightarrow> chunk \<Rightarrow> chunk list \<Rightarrow> string" where
  "without_overlaps T prev [] = []"
| "without_overlaps T prev (c # cs) = drop (shared prev c) (span T c) @ without_overlaps T c cs"

definition reconstruct :: "string \<Rightarrow> chunk list \<Rightarrow> string" where
  "reconstruct T cs = (case cs of [] \<Rightarrow> [] | c # rest \<Rightarrow> span T c @ without_overlaps T c rest)"

text \<open>Two texts for the Chunker: one of 8000 units and the empty one.\<close>

definition long_text :: textblock where
  "long_text = \<lparr>tb_text = replicate 8000 CHR ''a'', tb_source = ''a.pdf''\<rparr>"

definition empty_text :: textblock where
  "empty_text = \<lparr>tb_text = [], tb_source = ''a.pdf''\<rparr>"

section \<open>Basic facts\<close>

lemmas effect_defs = logger_def emit_def sleep_def rmtree_def
lemmas delete_defs = delete_vector_db_def clean_up_directory_def clear_session_def
  first_attempt_def retry_removal_def remove_directory_def get_chroma_client_def
lemmas create_defs = create_vector_db_def clean_up_existing_def get_chroma_client_def
  build_index_def remove_temp_def from_documents_def get_or_create_collection_def
  add_entries_def split_documents_def extract_text_from_pdf_def
lemmas main_defs = main_def init_session_def upload_section_def ingest_def chat_section_def
  answer_prompt_def append_message_def process_question_def extract_all_pages_as_images_def
lemmas fixture_defs = all_ok_def files_locked_def store_locked_def provider_down_def
  provider_flaky_def doc1_def doc2_def doc3_def upload_of_def press_delete_def say_def fresh_def

lemma indexed_eq:
  "indexed =
     \<lparr>messages = Some [], vector_db = Some (Some ''myRAG''), file_upload = Some doc1,
      pdf_pages = Some [0],
      chroma_db = Dir (Some [(\<lparr>page_content = ''alpha'', doc_source = ''a.pdf''\<rparr>, [])]),
      tmp = [], client_cached = True,
      events = [Log INFO ''Creating vector DB from file upload'',
                Log INFO ''File saved to temporary path'',
                Log INFO ''Extracting text from PDF'',
                Log INFO ''Document split into chunks'',
                Log INFO ''Vector DB created and persisted'',
                Log INFO ''Temporary directory removed'',
                Log INFO ''Extracting all pages as images from file'',
                Log INFO ''PDF pages extracted as images'']\<rparr>"
  by (simp add: indexed_def fixture_defs main_defs create_defs effect_defs Let_def)

lemma logger_fields [simp]:
  "messages (logger l m s) = messages s" "vector_db (logger l m s) = vector_db s"
  "file_upload (logger l m s) = file_upload s" "pdf_pages (logger l m s) = pdf_pages s"
  "chroma_db (logger l m s) = chroma_db s" "tmp (logger l m s) = tmp s"
  "client_cached (logger l m s) = client_cached s"
  "events (logger l m s) = events s @ [Log l m]"
  by (simp_all add: logger_def)

lemma emit_fields [simp]:
  "messages (emit ev s) = messages s" "vector_db (emit ev s) = vector_db s"
  "file_upload (emit ev s) = file_upload s" "pdf_pages (emit ev s) = pdf_pages s"
  "chroma_db (emit ev s) = chroma_db s" "tmp (emit ev s) = tmp s"
  "client_cached (emit ev s) = client_cached s"
  "events (emit ev s) = events s @ [ev]"
  by (simp_all add: emit_def)

lemma sleep_fields [simp]:
  "messages (sleep n s) = messages s" "vector_db (sleep n s) = vector_db s"
  "file_upload (sleep n s) = file_upload s" "pdf_pages (sleep n s) = pdf_pages s"
  "chroma_db (sleep n s) = chroma_db s" "tmp (sleep n s) = tmp s"
  "client_cached (sleep n s) = client_cached s"
  "events (sleep n s) = events s @ [Sleep n]"
  by (simp_all add: sleep_def)

lemma rmtree_fields [simp]:
  "fst (rmtree ok s) = ok"
  "messages (snd (rmtree ok s)) = messages s" "vector_db (snd (rmtree ok s)) = vector_db s"
  "file_upload (snd (rmtree ok s)) = file_upload s" "pdf_pages (snd (rmtree ok s)) = pdf_pages s"
  "chroma_db (snd (rmtree ok s)) = (if ok then NoDir else chroma_db s)"
  "tmp (snd (rmtree ok s)) = tmp s"
  "client_cached (snd (rmtree ok s)) = client_cached s"
  "events (snd (rmtree ok s)) = events s @ [Rmtree ''chroma_db'' ok]"
  by (simp_all add: rmtree_def)

lemma get_chroma_client_fields [simp]:
  "messages (get_chroma_client s) = messages s"
  "vector_db (get_chroma_client s) = vector_db s"
  "file_upload (get_chroma_client s) = file_upload s"
  "pdf_pages (get_chroma_client s) = pdf_pages s"
  "tmp (get_chroma_client s) = tmp s"
  "events (get_chroma_client s) = events s"
  "client_cached (get_chroma_client s) = True"
  by (simp_all add: get_chroma_client_def)

lemma get_chroma_client_dir:
  "chroma_db (get_chroma_client s) =
     (if client_cached s then chroma_db s
      else (case chroma_db s of NoDir \<Rightarrow> Dir None | Dir c \<Rightarrow> Dir c))"
  by (simp add: get_chroma_client_def)

lemma get_chroma_client_existing [simp]:
  "chroma_db s \<noteq> NoDir \<Longrightarrow> chroma_db (get_chroma_client s) = chroma_db s"
  by (simp add: get_chroma_client_def split: storage.splits)

lemma new_events_append [simp]: "events s' = events s @ evs \<Longrightarrow> new_events s s' = evs"
  by (simp add: new_events_def)

section \<open>Properties of deletion\<close>

lemma remove_directory_eq:
  "remove_directory e s =
     (rmtree_delete_ok e,
      if rmtree_delete_ok e then logger INFO ''Removed chroma_db directory'' (snd (rmtree True s))
      else snd (rmtree False s))"
  by (simp add: remove_directory_def rmtree_def)

lemma retry_removal_eq:
  "retry_removal e s =
     (let s1 = sleep 2000 (logger ERROR ''Error cleaning up chroma_db'' s)
      in if rmtree_retry_ok e
         then logger INFO ''Removed chroma_db directory after retry'' (snd (rmtree True s1))
         else logger ERROR ''Failed to remove chroma_db directory after retry''
                (snd (rmtree False s1)))"
  by (simp add: retry_removal_def rmtree_def Let_def)

lemma retry_removal_fields [simp]:
  "messages (retry_removal e s) = messages s"
  "chroma_db (retry_removal e s) = (if rmtree_retry_ok e then NoDir else chroma_db s)"
  "events (retry_removal e s) = events s @
     [Log ERROR ''Error cleaning up chroma_db'', Sleep 2000,
      Rmtree ''chroma_db'' (rmtree_retry_ok e),
      if rmtree_retry_ok e then Log INFO ''Removed chroma_db directory after retry''
      else Log ERROR ''Failed to remove chroma_db directory after retry'']"
  by (simp_all add: retry_removal_eq Let_def)

lemma first_attempt_events:
  "\<exists>evs. events (snd (first_attempt e s)) = events s @ evs \<and> \<not> list_ex is_error evs
      \<and> length (filter is_rmtree evs) \<le> 1"
  by (auto simp: first_attempt_def remove_directory_eq Let_def
      split: storage.splits option.splits)

lemma first_attempt_fst:
  "chroma_db s \<noteq> NoDir \<Longrightarrow>
     fst (first_attempt e s) =
       (client_ok e \<and> (collection_entries s = [] \<and> chroma_db s \<noteq> Dir (Some []) \<or>
                       delete_collection_ok e) \<and> rmtree_delete_ok e)"
  by (auto simp: first_attempt_def remove_directory_eq collection_entries_def Let_def
      split: storage.splits option.splits)

lemma first_attempt_fields [simp]:
  "messages (snd (first_attempt e s)) = messages s"
  "vector_db (snd (first_attempt e s)) = vector_db s"
  "file_upload (snd (first_attempt e s)) = file_upload s"
  "pdf_pages (snd (first_attempt e s)) = pdf_pages s"
  "tmp (snd (first_attempt e s)) = tmp s"
  by (auto simp: first_attempt_def remove_directory_eq Let_def
      split: storage.splits option.splits)

lemma first_attempt_logger [simp]:
  "fst (first_attempt e (logger l m s)) = fst (first_attempt e s)"
  by (auto simp: first_attempt_def remove_directory_eq Let_def get_chroma_client_dir
      split: storage.splits option.splits)

lemma first_attempt_chroma:
  "chroma_db s \<noteq> NoDir \<Longrightarrow>
     (chroma_db (snd (first_attempt e s)) = NoDir) = fst (first_attempt e s)"
  by (auto simp: first_attempt_def remove_directory_eq Let_def
      split: storage.splits option.splits)

lemma clean_up_directory_eq:
  "clean_up_directory e s =
     (if chroma_db s = NoDir then s
      else if fst (first_attempt e s) then snd (first_attempt e s)
      else retry_removal e (snd (first_attempt e s)))"
  by (cases "first_attempt e s") (auto simp: clean_up_directory_def)

lemma clean_up_directory_messages [simp]:
  "messages (clean_up_directory e s) = messages s"
  by (simp add: clean_up_directory_eq)

lemma clean_up_directory_events:
  "\<exists>evs. events (clean_up_directory e s) = events s @ evs \<and> \<not> list_ex is_error evs"
  using first_attempt_events [of e s] by (auto simp: clean_up_directory_eq)

lemma clear_session_fields [simp]:
  "messages (clear_session s) = messages s" "vector_db (clear_session s) = None"
  "file_upload (clear_session s) = None" "pdf_pages (clear_session s) = None"
  "chroma_db (clear_session s) = chroma_db s" "tmp (clear_session s) = tmp s"
  "client_cached (clear_session s) = client_cached s"
  "events (clear_session s) = events s @
     [StSuccess ''Collection and temporary files deleted successfully.'',
      Log INFO ''Vector DB and related session state cleared'', Sleep 1000]"
  by (simp_all add: clear_session_def Let_def)

lemma delete_reports_success: "reports_success s (delete_vector_db e s)"
proof -
  obtain evs where
    "events (clean_up_directory e (logger INFO ''Deleting vector DB'' s))
       = events s @ Log INFO ''Deleting vector DB'' # evs" and "\<not> list_ex is_error evs"
    using clean_up_directory_events [of e "logger INFO ''Deleting vector DB'' s"] by auto
  then show ?thesis
    by (simp add: reports_success_def delete_vector_db_def new_events_def list_ex_append)
qed

lemma delete_absent:
  "chroma_db s = NoDir \<Longrightarrow>
     chroma_db (delete_vector_db e s) = NoDir \<and>
     new_events s (delete_vector_db e s) =
       [Log INFO ''Deleting vector DB'',
        StSuccess ''Collection and temporary files deleted successfully.'',
        Log INFO ''Vector DB and related session state cleared'', Sleep 1000]"
  by (simp add: delete_vector_db_def clean_up_directory_eq)

lemma delete_clears_session:
  "vector_db (delete_vector_db e s) = None" "file_upload (delete_vector_db e s) = None"
  "pdf_pages (delete_vector_db e s) = None"
  by (simp_all add: delete_vector_db_def)

lemma delete_keeps_messages: "messages (delete_vector_db e s) = messages s"
  by (simp add: delete_vector_db_def)

lemma delete_storage:
  "(chroma_db (delete_vector_db e s) = NoDir) =
     (chroma_db s = NoDir \<or> fst (first_attempt e s) \<or> rmtree_retry_ok e)"
  using first_attempt_chroma [of "logger INFO ''Deleting vector DB'' s" e]
  by (auto simp: delete_vector_db_def clean_up_directory_eq)

lemma delete_no_op:
  assumes "chroma_db s = NoDir" and "vector_db s = None" and "file_upload s = None"
    and "pdf_pages s = None"
  shows "delete_vector_db e s =
           s\<lparr>events := events s @
               [Log INFO ''Deleting vector DB'',
                StSuccess ''Collection and temporary files deleted successfully.'',
                Log INFO ''Vector DB and related session state cleared'', Sleep 1000]\<rparr>"
  using assms
  by (cases s)
     (simp add: delete_vector_db_def clean_up_directory_def clear_session_def effect_defs Let_def)

lemma search_space_no_dir: "chroma_db s = NoDir \<Longrightarrow> search_space s = []"
  by (simp add: search_space_def collection_entries_def)

text \<open>
  C9. Deleting is idempotent: for every state and whatever the calls of the two deletions
  do, \<^verbatim>\<open>delete_vector_db\<close> run twice in a row reports success both times and leaves the
  session without an index. The first call leaves no directory exactly when there was none
  or its cleanup worked, in the first attempt or in the retry; nothing is left to search
  then, and the second call is a no-op: it changes nothing in the session or on disk and
  only logs and reports success. On a state without directory the first call already
  removes nothing and does nothing but log and report success.
\<close>

theorem reset_twice_succeeds:
  "reports_success s (delete_vector_db e1 s) \<and>
   reports_success (delete_vector_db e1 s) (delete_vector_db e2 (delete_vector_db e1 s)) \<and>
   \<not> index_ready (delete_vector_db e1 s) \<and>
   \<not> index_ready (delete_vector_db e2 (delete_vector_db e1 s)) \<and>
   (chroma_db (delete_vector_db e1 s) = NoDir) =
     (chroma_db s = NoDir \<or> fst (first_attempt e1 s) \<or> rmtree_retry_ok e1) \<and>
   (chroma_db (delete_vector_db e1 s) = NoDir \<longrightarrow>
      search_space (delete_vector_db e1 s) = [] \<and>
      delete_vector_db e2 (delete_vector_db e1 s) =
        (delete_vector_db e1 s)\<lparr>events := events (delete_vector_db e1 s) @
           [Log INFO ''Deleting vector DB'',
            StSuccess ''Collection and temporary files deleted successfully.'',
            Log INFO ''Vector DB and related session state cleared'', Sleep 1000]\<rparr>) \<and>
   (chroma_db s = NoDir \<longrightarrow>
      chroma_db (delete_vector_db e1 s) = NoDir \<and>
      new_events s (delete_vector_db e1 s) =
        [Log INFO ''Deleting vector DB'',
         StSuccess ''Collection and temporary files deleted successfully.'',
         Log INFO ''Vector DB and related session state cleared'', Sleep 1000])"
proof -
  have second: "chroma_db (delete_vector_db e1 s) = NoDir \<longrightarrow>
      search_space (delete_vector_db e1 s) = [] \<and>
      delete_vector_db e2 (delete_vector_db e1 s) =
        (delete_vector_db e1 s)\<lparr>events := events (delete_vector_db e1 s) @
           [Log INFO ''Deleting vector DB'',
            StSuccess ''Collection and temporary files deleted successfully.'',
            Log INFO ''Vector DB and related session state cleared'', Sleep 1000]\<rparr>"
    using delete_no_op [of "delete_vector_db e1 s" e2] delete_clears_session [of e1 s]
      search_space_no_dir [of "delete_vector_db e1 s"]
    by simp
  show ?thesis
    using second delete_storage [of e1 s]
    by (simp add: delete_reports_success delete_absent index_ready_def delete_clears_session)
qed

text \<open>
  The statement at concrete inputs: the index of the first document with every call
  returning, where the first deletion destroys the collection and the directory, and a
  fresh process, where no directory exists.
\<close>

theorem reset_twice_succeeds_witness:
  "chroma_db indexed \<noteq> NoDir \<and> search_space indexed \<noteq> [] \<and> fst (first_attempt all_ok indexed) \<and>
   reports_success indexed (delete_vector_db all_ok indexed) \<and>
   reports_success (delete_vector_db all_ok indexed)
     (delete_vector_db all_ok (delete_vector_db all_ok indexed)) \<and>
   chroma_db (delete_vector_db all_ok indexed) = NoDir \<and>
   search_space (delete_vector_db all_ok indexed) = [] \<and>
   delete_vector_db all_ok (delete_vector_db all_ok indexed) =
     (delete_vector_db all_ok indexed)\<lparr>events := events (delete_vector_db all_ok indexed) @
        [Log INFO ''Deleting vector DB'',
         StSuccess ''Collection and temporary files deleted successfully.'',
         Log INFO ''Vector DB and related session state cleared'', Sleep 1000]\<rparr> \<and>
   chroma_db fresh = NoDir \<and>
   chroma_db (delete_vector_db all_ok fresh) = NoDir \<and>
   new_events fresh (delete_vector_db all_ok fresh) =
        [Log INFO ''Deleting vector DB'',
         StSuccess ''Collection and temporary files deleted successfully.'',
         Log INFO ''Vector DB and related session state cleared'', Sleep 1000]"
proof -
  have a: "chroma_db indexed \<noteq> NoDir" "search_space indexed \<noteq> []"
    by (simp_all add: indexed_eq search_space_def collection_entries_def)
  have b: "fst (first_attempt all_ok indexed)"
    by (simp add: first_attempt_fst a indexed_eq all_ok_def collection_entries_def)
  have c: "chroma_db fresh = NoDir" by (simp add: fresh_def)
  note t1 = reset_twice_succeeds [of indexed all_ok all_ok]
  note t2 = reset_twice_succeeds [of fresh all_ok all_ok]
  have r1: "reports_success indexed (delete_vector_db all_ok indexed)"
    and r2: "reports_success (delete_vector_db all_ok indexed)
               (delete_vector_db all_ok (delete_vector_db all_ok indexed))"
    using t1 by simp_all
  have gone: "chroma_db (delete_vector_db all_ok indexed) = NoDir"
    using t1 b by simp
  have emptied: "search_space (delete_vector_db all_ok indexed) = []"
    using t1 gone by simp
  have no_op: "delete_vector_db all_ok (delete_vector_db all_ok indexed) =
     (delete_vector_db all_ok indexed)\<lparr>events := events (delete_vector_db all_ok indexed) @
        [Log INFO ''Deleting vector DB'',
         StSuccess ''Collection and temporary files deleted successfully.'',
         Log INFO ''Vector DB and related session state cleared'', Sleep 1000]\<rparr>"
    using t1 gone by simp
  have f1: "chroma_db (delete_vector_db all_ok fresh) = NoDir"
    and f2: "new_events fresh (delete_vector_db all_ok fresh) =
        [Log INFO ''Deleting vector DB'',
         StSuccess ''Collection and temporary files deleted successfully.'',
         Log INFO ''Vector DB and related session state cleared'', Sleep 1000]"
    using t2 c by simp_all
  show ?thesis
    using a b c r1 r2 gone emptied no_op f1 f2 by - (intro conjI; assumption)
qed

lemma retry_events:
  assumes "chroma_db s \<noteq> NoDir" and "\<not> fst (first_attempt e s)"
  shows "\<exists>pre. new_events s (delete_vector_db e s) =
           pre @ [Log ERROR ''Error cleaning up chroma_db'', Sleep 2000,
                  Rmtree ''chroma_db'' (rmtree_retry_ok e),
                  (if rmtree_retry_ok e
                   then Log INFO ''Removed chroma_db directory after retry''
                   else Log ERROR ''Failed to remove chroma_db directory after retry''),
                  StSuccess ''Collection and temporary files deleted successfully.'',
                  Log INFO ''Vector DB and related session state cleared'', Sleep 1000]
           \<and> length (filter is_rmtree pre) \<le> 1"
proof -
  let ?s0 = "logger INFO ''Deleting vector DB'' s"
  obtain evs where
    evs: "events (snd (first_attempt e ?s0)) = events s @ Log INFO ''Deleting vector DB'' # evs"
    and one: "length (filter is_rmtree evs) \<le> 1"
    using first_attempt_events [of e ?s0] by auto
  have "new_events s (delete_vector_db e s) =
          (Log INFO ''Deleting vector DB'' # evs) @
            [Log ERROR ''Error cleaning up chroma_db'', Sleep 2000,
             Rmtree ''chroma_db'' (rmtree_retry_ok e),
             (if rmtree_retry_ok e
              then Log INFO ''Removed chroma_db directory after retry''
              else Log ERROR ''Failed to remove chroma_db directory after retry''),
             StSuccess ''Collection and temporary files deleted successfully.'',
             Log INFO ''Vector DB and related session state cleared'', Sleep 1000]"
    using assms evs by (simp add: delete_vector_db_def clean_up_directory_eq)
  moreover have "length (filter is_rmtree (Log INFO ''Deleting vector DB'' # evs)) \<le> 1"
    using one by simp
  ultimately show ?thesis by blast
qed

lemma retry_storage:
  assumes "chroma_db s \<noteq> NoDir" and "\<not> fst (first_attempt e s)"
  shows "(chroma_db (delete_vector_db e s) = NoDir) = rmtree_retry_ok e"
  using assms first_attempt_chroma [of "logger INFO ''Deleting vector DB'' s" e]
  by (simp add: delete_vector_db_def clean_up_directory_eq)

section \<open>Properties of the build\<close>

lemma embed_documents_prefix:
  "embed_documents f docs = (es, ok) \<Longrightarrow>
     map fst es = take (length es) docs \<and> length es \<le> length docs \<and>
     (ok \<longrightarrow> length es = length docs) \<and> (\<not> ok \<longrightarrow> length es < length docs) \<and>
     ok = (\<not> list_ex (\<lambda>d. f (page_content d) = None) docs)"
proof (induction docs arbitrary: es ok)
  case Nil
  then show ?case by auto
next
  case (Cons d ds)
  show ?case
  proof (cases "f (page_content d)")
    case None
    then show ?thesis using Cons.prems by auto
  next
    case (Some v)
    obtain es' ok' where r: "embed_documents f ds = (es', ok')" by fastforce
    then have "es = (d, v) # es'" "ok = ok'" using Cons.prems Some by auto
    then show ?thesis using Cons.IH [OF r] Some by auto
  qed
qed

lemma clean_up_existing_fields [simp]:
  "messages (clean_up_existing e s) = messages s"
  "vector_db (clean_up_existing e s) = vector_db s"
  "tmp (clean_up_existing e s) = tmp s"
  "client_cached (clean_up_existing e s) = client_cached s"
  "chroma_db (clean_up_existing e s) = (if rmtree_create_ok e then NoDir else chroma_db s)"
  by (auto simp: clean_up_existing_def rmtree_def)

lemma clean_up_existing_events:
  "events (clean_up_existing e s) = events s @
     (if chroma_db s = NoDir then []
      else if rmtree_create_ok e
      then [Rmtree ''chroma_db'' True, Log INFO ''Removed existing chroma_db'', Sleep 500]
      else [Rmtree ''chroma_db'' False, Log WARNING ''Could not remove existing directory''])"
  by (simp add: clean_up_existing_def rmtree_def)

lemma search_space_get_or_create [simp]:
  "search_space (get_or_create_collection s) = search_space s"
  by (simp add: search_space_def collection_entries_def get_or_create_collection_def
      split: storage.splits option.splits)

lemma search_space_add_entries:
  "search_space (add_entries new (get_or_create_collection s)) = search_space s @ map fst new"
  by (simp add: search_space_def collection_entries_def get_or_create_collection_def
      add_entries_def split: storage.splits option.splits)

lemma store_fields [simp]:
  "messages (get_or_create_collection s) = messages s"
  "vector_db (get_or_create_collection s) = vector_db s"
  "tmp (get_or_create_collection s) = tmp s"
  "events (get_or_create_collection s) = events s"
  "chroma_db (get_or_create_collection s) \<noteq> NoDir"
  "messages (add_entries new s) = messages s"
  "vector_db (add_entries new s) = vector_db s"
  "tmp (add_entries new s) = tmp s"
  "events (add_entries new s) = events s"
  "(chroma_db (add_entries new s) = NoDir) = (chroma_db s = NoDir)"
  by (simp_all add: get_or_create_collection_def add_entries_def
      split: storage.splits option.splits)

text \<open>What a call of the vector store that raises leaves behind.\<close>

lemma from_documents_fails:
  assumes "from_documents e docs s = (Inl err, t)"
  shows "messages t = messages s" "vector_db t = vector_db s" "tmp t = tmp s"
    "events t = events s" "chroma_db s \<noteq> NoDir \<Longrightarrow> chroma_db t \<noteq> NoDir"
    "\<exists>k\<le>written_before_failure e.
       search_space t = search_space s @ take k docs \<and> (docs \<noteq> [] \<longrightarrow> k < length docs)"
proof -
  obtain es ok where em: "embed_documents (embed e) docs = (es, ok)" by fastforce
  note p = embed_documents_prefix [OF em]
  show "messages t = messages s" "vector_db t = vector_db s" "tmp t = tmp s"
    "events t = events s" "chroma_db s \<noteq> NoDir \<Longrightarrow> chroma_db t \<noteq> NoDir"
    using assms em
    by (auto simp: from_documents_def Let_def split: if_splits bool.splits)
  show "\<exists>k\<le>written_before_failure e.
       search_space t = search_space s @ take k docs \<and> (docs \<noteq> [] \<longrightarrow> k < length docs)"
  proof (cases "\<not> store_ok e \<or> chroma_db s = NoDir \<or> docs = []")
    case True
    then have "search_space t = search_space s"
      using assms by (auto simp: from_documents_def Let_def split: if_splits)
    then show ?thesis by (intro exI [of _ 0]) auto
  next
    case False
    then have ok: "\<not> ok"
      and t: "t = add_entries (take (written_before_failure e) es) (get_or_create_collection s)"
      using assms em by (auto simp: from_documents_def Let_def split: if_splits bool.splits)
    let ?k = "min (written_before_failure e) (length es)"
    have "map fst (take (written_before_failure e) es) = take ?k docs"
      using p by (simp add: take_map [symmetric] min.commute)
    then have "search_space t = search_space s @ take ?k docs"
      using t by (simp add: search_space_add_entries)
    moreover have "?k < length docs" using p ok by (auto simp: min_def)
    ultimately show ?thesis by (intro exI [of _ ?k]) auto
  qed
qed

lemma from_documents_succeeds:
  assumes "from_documents e docs s = (Inr h, t)"
  shows "messages t = messages s" "vector_db t = vector_db s" "tmp t = tmp s"
    "events t = events s" "search_space t = search_space s @ docs" "h = ''myRAG''"
    "chroma_db t \<noteq> NoDir"
proof -
  obtain es ok where em: "embed_documents (embed e) docs = (es, ok)" by fastforce
  note p = embed_documents_prefix [OF em]
  have ok: "ok" and t: "t = add_entries es (get_or_create_collection s)" and h: "h = ''myRAG''"
    using assms em by (auto simp: from_documents_def Let_def split: if_splits bool.splits)
  show "messages t = messages s" "vector_db t = vector_db s" "tmp t = tmp s"
    "events t = events s" "h = ''myRAG''" "chroma_db t \<noteq> NoDir"
    using t h by simp_all
  show "search_space t = search_space s @ docs"
    using t p ok by (simp add: search_space_add_entries)
qed

lemma from_documents_blocked:
  assumes "\<not> store_ok e \<or> chroma_db s = NoDir \<or> docs = [] \<or>
           list_ex (\<lambda>d. embed e (page_content d) = None) docs"
  shows "isl (fst (from_documents e docs s))"
proof -
  obtain es ok where em: "embed_documents (embed e) docs = (es, ok)" by fastforce
  note p = embed_documents_prefix [OF em]
  show ?thesis using assms em p
    by (auto simp: from_documents_def Let_def split: bool.splits)
qed

lemma chunks_of_unreadable: "extract_text_from_pdf (up_pdf f) = Inl err \<Longrightarrow> chunks_of e f = []"
  by (simp add: chunks_of_def)

lemma sources_chunks_of: "list_all (\<lambda>d. doc_source d = up_name f) (chunks_of e f)"
  by (auto simp: chunks_of_def split_documents_def list_all_iff split: sum.splits)

text \<open>The three ways through the body of the \<^verbatim>\<open>try\<close>.\<close>

lemma build_index_cases:
  obtains (unreadable) err where "extract_text_from_pdf (up_pdf f) = Inl err"
      "build_index e f s = (Inl err, logger INFO ''Extracting text from PDF''
          (logger INFO ''File saved to temporary path'' (s\<lparr>tmp := up_name f # tmp s\<rparr>)))"
  | (failed) err t where "\<not> isl (extract_text_from_pdf (up_pdf f))"
      "from_documents e (chunks_of e f)
         (logger INFO ''Document split into chunks'' (logger INFO ''Extracting text from PDF''
          (logger INFO ''File saved to temporary path'' (s\<lparr>tmp := up_name f # tmp s\<rparr>))))
         = (Inl err, t)"
      "build_index e f s = (Inl err, t)"
  | (built) h t where "\<not> isl (extract_text_from_pdf (up_pdf f))"
      "from_documents e (chunks_of e f)
         (logger INFO ''Document split into chunks'' (logger INFO ''Extracting text from PDF''
          (logger INFO ''File saved to temporary path'' (s\<lparr>tmp := up_name f # tmp s\<rparr>))))
         = (Inr h, t)"
      "build_index e f s = (Inr h, logger INFO ''Vector DB created and persisted'' t)"
proof (cases "extract_text_from_pdf (up_pdf f)")
  case (Inl err)
  then show ?thesis using unreadable by (simp add: build_index_def Let_def)
next
  case (Inr body)
  let ?s3 = "logger INFO ''Document split into chunks'' (logger INFO ''Extracting text from PDF''
          (logger INFO ''File saved to temporary path'' (s\<lparr>tmp := up_name f # tmp s\<rparr>)))"
  have ch: "chunks_of e f = split_documents e \<lparr>page_content = body, doc_source = up_name f\<rparr>"
    using Inr by (simp add: chunks_of_def)
  obtain r t where fd: "from_documents e (chunks_of e f) ?s3 = (r, t)"
    by fastforce
  show ?thesis
  proof (cases r)
    case (Inl err)
    then show ?thesis using failed [of err t] Inr fd ch by (simp add: build_index_def Let_def)
  next
    case (Inr h)
    then show ?thesis
      using built [of h t] \<open>extract_text_from_pdf (up_pdf f) = Inr body\<close> fd ch
      by (simp add: build_index_def Let_def)
  qed
qed

lemma search_space_fields [simp]:
  "search_space (logger l m s) = search_space s"
  "search_space (s\<lparr>tmp := x\<rparr>) = search_space s"
  "search_space (s\<lparr>file_upload := y\<rparr>) = search_space s"
  "search_space (s\<lparr>vector_db := z\<rparr>) = search_space s"
  by (simp_all add: search_space_def collection_entries_def)

lemma build_index_fails:
  assumes "build_index e f s = (Inl err, t)"
  shows "messages t = messages s" "vector_db t = vector_db s" "tmp t = up_name f # tmp s"
    "chroma_db s \<noteq> NoDir \<Longrightarrow> chroma_db t \<noteq> NoDir"
    "\<exists>k\<le>written_before_failure e.
       search_space t = search_space s @ take k (chunks_of e f) \<and>
       (chunks_of e f \<noteq> [] \<longrightarrow> k < length (chunks_of e f))"
proof -
  have "messages t = messages s \<and> vector_db t = vector_db s \<and> tmp t = up_name f # tmp s \<and>
        (chroma_db s \<noteq> NoDir \<longrightarrow> chroma_db t \<noteq> NoDir) \<and>
        (\<exists>k\<le>written_before_failure e.
           search_space t = search_space s @ take k (chunks_of e f) \<and>
           (chunks_of e f \<noteq> [] \<longrightarrow> k < length (chunks_of e f)))"
  proof (cases rule: build_index_cases [of f e s])
    case (unreadable err')
    then have "t = logger INFO ''Extracting text from PDF''
          (logger INFO ''File saved to temporary path'' (s\<lparr>tmp := up_name f # tmp s\<rparr>))"
      using assms by simp
    then show ?thesis using chunks_of_unreadable [OF unreadable(1), of e]
      by (simp add: exI [of _ 0])
  next
    case (failed err' t')
    then have "t' = t" using assms by simp
    then show ?thesis using from_documents_fails [OF failed(2)] by simp
  next
    case (built h t')
    then show ?thesis using assms by simp
  qed
  then show "messages t = messages s" "vector_db t = vector_db s" "tmp t = up_name f # tmp s"
    "chroma_db s \<noteq> NoDir \<Longrightarrow> chroma_db t \<noteq> NoDir"
    "\<exists>k\<le>written_before_failure e.
       search_space t = search_space s @ take k (chunks_of e f) \<and>
       (chunks_of e f \<noteq> [] \<longrightarrow> k < length (chunks_of e f))"
    by simp_all
qed

lemma build_index_succeeds:
  assumes "build_index e f s = (Inr h, t)"
  shows "messages t = messages s" "vector_db t = vector_db s" "tmp t = up_name f # tmp s"
    "h = ''myRAG''" "search_space t = search_space s @ chunks_of e f"
    "\<not> isl (extract_text_from_pdf (up_pdf f))"
proof -
  have "messages t = messages s \<and> vector_db t = vector_db s \<and> tmp t = up_name f # tmp s \<and>
        h = ''myRAG'' \<and> search_space t = search_space s @ chunks_of e f \<and>
        \<not> isl (extract_text_from_pdf (up_pdf f))"
  proof (cases rule: build_index_cases [of f e s])
    case (unreadable err')
    then show ?thesis using assms by simp
  next
    case (failed err' t')
    then show ?thesis using assms by simp
  next
    case (built h' t')
    then have "t = logger INFO ''Vector DB created and persisted'' t'" "h' = h"
      using assms by simp_all
    then show ?thesis using from_documents_succeeds [OF built(2)] built(1) by simp
  qed
  then show "messages t = messages s" "vector_db t = vector_db s" "tmp t = up_name f # tmp s"
    "h = ''myRAG''" "search_space t = search_space s @ chunks_of e f"
    "\<not> isl (extract_text_from_pdf (up_pdf f))"
    by simp_all
qed

lemma build_index_blocked:
  assumes "isl (extract_text_from_pdf (up_pdf f)) \<or> \<not> store_ok e \<or> chroma_db s = NoDir \<or>
           chunks_of e f = [] \<or> list_ex (\<lambda>d. embed e (page_content d) = None) (chunks_of e f)"
  shows "isl (fst (build_index e f s))"
proof (cases rule: build_index_cases [of f e s])
  case (unreadable err)
  then show ?thesis by simp
next
  case (failed err t)
  then show ?thesis by simp
next
  case (built h t)
  let ?s3 = "logger INFO ''Document split into chunks'' (logger INFO ''Extracting text from PDF''
          (logger INFO ''File saved to temporary path'' (s\<lparr>tmp := up_name f # tmp s\<rparr>)))"
  have "isl (fst (from_documents e (chunks_of e f) ?s3))"
    using assms built(1) by (intro from_documents_blocked) auto
  then show ?thesis using built(2) by simp
qed

lemma build_index_events:
  "\<exists>evs. events (snd (build_index e f s)) = events s @ evs"
proof (cases rule: build_index_cases [of f e s])
  case (unreadable err)
  then show ?thesis by simp
next
  case (failed err t)
  then show ?thesis using from_documents_fails(4) [OF failed(2)] by simp
next
  case (built h t)
  then show ?thesis using from_documents_succeeds(4) [OF built(2)] by simp
qed

lemma remove_temp_fields [simp]:
  "messages (remove_temp e f s) = messages s" "vector_db (remove_temp e f s) = vector_db s"
  "chroma_db (remove_temp e f s) = chroma_db s"
  "search_space (remove_temp e f s) = search_space s"
  "tmp (remove_temp e f s) = (if rmtree_temp_ok e then remove1 (up_name f) (tmp s) else tmp s)"
  by (simp_all add: remove_temp_def search_space_def collection_entries_def)

lemma remove_temp_events:
  "\<exists>evs. events (remove_temp e f s) = events s @ evs"
  by (simp add: remove_temp_def)

lemma create_vector_db_eq:
  "create_vector_db e f s =
     (fst (build_index e f (get_chroma_client (clean_up_existing e
            (logger INFO ''Creating vector DB from file upload'' s)))),
      remove_temp e f (snd (build_index e f (get_chroma_client (clean_up_existing e
            (logger INFO ''Creating vector DB from file upload'' s))))))"
  by (simp add: create_vector_db_def Let_def split: prod.splits)

text \<open>The state in which the body of the \<^verbatim>\<open>try\<close> starts.\<close>

lemma prepared_dir:
  "(chroma_db (get_chroma_client (clean_up_existing e (logger l m s))) = NoDir) =
     (client_cached s \<and> (chroma_db s = NoDir \<or> rmtree_create_ok e))"
  by (auto simp: get_chroma_client_dir split: storage.splits)

lemma prepared_space:
  "search_space (get_chroma_client (clean_up_existing e (logger l m s))) =
     (if chroma_db s = NoDir \<or> rmtree_create_ok e then [] else search_space s)"
  by (auto simp: search_space_def collection_entries_def get_chroma_client_dir
      split: storage.splits)

lemma create_fails:
  assumes "create_vector_db e f s = (Inl err, s')"
  shows "vector_db s' = vector_db s" and "messages s' = messages s"
    and "tmp s' = (if rmtree_temp_ok e then tmp s else up_name f # tmp s)"
    and "\<not> client_cached s \<or> (chroma_db s \<noteq> NoDir \<and> \<not> rmtree_create_ok e)
           \<Longrightarrow> chroma_db s' \<noteq> NoDir"
    and "\<exists>k\<le>written_before_failure e.
           search_space s' =
             (if chroma_db s = NoDir \<or> rmtree_create_ok e then [] else search_space s) @
             take k (chunks_of e f) \<and>
           (chunks_of e f \<noteq> [] \<longrightarrow> k < length (chunks_of e f))"
proof -
  let ?s2 = "get_chroma_client (clean_up_existing e
               (logger INFO ''Creating vector DB from file upload'' s))"
  obtain t where b: "build_index e f ?s2 = (Inl err, t)" and s': "s' = remove_temp e f t"
    using assms by (cases "build_index e f ?s2") (simp add: create_vector_db_eq)
  note f = build_index_fails [OF b]
  show "vector_db s' = vector_db s" "messages s' = messages s"
    "tmp s' = (if rmtree_temp_ok e then tmp s else up_name f # tmp s)"
    using f s' by simp_all
  show "chroma_db s' \<noteq> NoDir"
    if "\<not> client_cached s \<or> (chroma_db s \<noteq> NoDir \<and> \<not> rmtree_create_ok e)"
  proof -
    have "chroma_db ?s2 \<noteq> NoDir" using that by (auto simp only: prepared_dir)
    then show ?thesis using f(4) s' by simp
  qed
  show "\<exists>k\<le>written_before_failure e.
           search_space s' =
             (if chroma_db s = NoDir \<or> rmtree_create_ok e then [] else search_space s) @
             take k (chunks_of e f) \<and>
           (chunks_of e f \<noteq> [] \<longrightarrow> k < length (chunks_of e f))"
    using f(5) unfolding prepared_space s' by simp
qed

lemma create_succeeds:
  assumes "create_vector_db e f s = (Inr h, s')"
  shows "vector_db s' = vector_db s" and "messages s' = messages s" and "h = ''myRAG''"
    and "\<not> isl (extract_text_from_pdf (up_pdf f))"
    and "search_space s' =
           (if chroma_db s = NoDir \<or> rmtree_create_ok e then [] else search_space s) @
           chunks_of e f"
proof -
  let ?s2 = "get_chroma_client (clean_up_existing e
               (logger INFO ''Creating vector DB from file upload'' s))"
  obtain t where b: "build_index e f ?s2 = (Inr h, t)" and s': "s' = remove_temp e f t"
    using assms by (cases "build_index e f ?s2") (simp add: create_vector_db_eq)
  note f = build_index_succeeds [OF b]
  show "vector_db s' = vector_db s" "messages s' = messages s" "h = ''myRAG''"
    "\<not> isl (extract_text_from_pdf (up_pdf f))"
    using f s' by simp_all
  show "search_space s' =
           (if chroma_db s = NoDir \<or> rmtree_create_ok e then [] else search_space s) @
           chunks_of e f"
    using f(5) unfolding prepared_space s' by simp
qed

lemma create_blocked:
  assumes "build_step_fails e f s"
  shows "isl (fst (create_vector_db e f s))"
proof -
  let ?s2 = "get_chroma_client (clean_up_existing e
               (logger INFO ''Creating vector DB from file upload'' s))"
  have "isl (extract_text_from_pdf (up_pdf f)) \<or> \<not> store_ok e \<or> chroma_db ?s2 = NoDir \<or>
        chunks_of e f = [] \<or> list_ex (\<lambda>d. embed e (page_content d) = None) (chunks_of e f)"
    using assms unfolding build_step_fails_def prepared_dir by blast
  then have "isl (fst (build_index e f ?s2))" by (rule build_index_blocked)
  then show ?thesis by (simp add: create_vector_db_eq)
qed

lemma create_events:
  "\<exists>evs. events (snd (create_vector_db e f s)) =
     events s @ Log INFO ''Creating vector DB from file upload'' #
       (if chroma_db s = NoDir then []
        else if rmtree_create_ok e
        then [Rmtree ''chroma_db'' True, Log INFO ''Removed existing chroma_db'', Sleep 500]
        else [Rmtree ''chroma_db'' False, Log WARNING ''Could not remove existing directory''])
       @ evs"
proof -
  let ?s1 = "clean_up_existing e (logger INFO ''Creating vector DB from file upload'' s)"
  obtain evs1 where 1: "events (snd (build_index e f (get_chroma_client ?s1))) = events ?s1 @ evs1"
    using build_index_events [of e f "get_chroma_client ?s1"] by auto
  obtain evs2 where 2: "events (snd (create_vector_db e f s)) =
      events (snd (build_index e f (get_chroma_client ?s1))) @ evs2"
    using remove_temp_events [of e f "snd (build_index e f (get_chroma_client ?s1))"]
    by (auto simp: create_vector_db_eq)
  show ?thesis
    unfolding 2 1 clean_up_existing_events by (rule exI [of _ "evs1 @ evs2"]) simp
qed

section \<open>Properties of ingestion\<close>

lemma ingest_ready:
  "vector_db s = Some (Some h) \<Longrightarrow> ingest e f s = (Inr (), s\<lparr>file_upload := Some f\<rparr>)"
  by (simp add: ingest_def Let_def)

lemma ingest_not_ready:
  "vector_db s = Some None \<Longrightarrow>
     ingest e f s =
       (case create_vector_db e f (s\<lparr>file_upload := Some f\<rparr>) of
          (Inl err, t) \<Rightarrow> (Inl err, t)
        | (Inr h, t) \<Rightarrow> (Inr (), t\<lparr>vector_db := Some (Some h)\<rparr>))"
  by (simp add: ingest_def Let_def)

lemma ingest_absent: "vector_db s = None \<Longrightarrow> fst (ingest e f s) = Inl KeyError"
  by (simp add: ingest_def Let_def)

lemma build_step_fails_upload [simp]:
  "build_step_fails e f (s\<lparr>file_upload := x\<rparr>) = build_step_fails e f s"
  by (simp add: build_step_fails_def)

lemma ingest_blocked:
  assumes "\<not> index_ready s" and "build_step_fails e f s"
  shows "isl (fst (ingest e f s))"
proof (cases "vector_db s")
  case None
  then show ?thesis by (simp add: ingest_absent)
next
  case (Some v)
  then have v: "vector_db s = Some None"
    using assms(1) by (cases v) (simp_all add: index_ready_def)
  have "isl (fst (create_vector_db e f (s\<lparr>file_upload := Some f\<rparr>)))"
    using assms(2) by (intro create_blocked) simp
  then show ?thesis
    by (cases "create_vector_db e f (s\<lparr>file_upload := Some f\<rparr>)")
       (auto simp: ingest_not_ready v split: sum.splits)
qed

text \<open>What an ingestion that goes through leaves, in a session without index.\<close>

lemma ingest_built:
  assumes "\<not> index_ready s" and "fst (ingest e f s) = Inr ()"
  shows "index_ready (snd (ingest e f s))"
    and "search_space (snd (ingest e f s)) =
           (if chroma_db s = NoDir \<or> rmtree_create_ok e then [] else search_space s) @
           chunks_of e f"
    and "\<exists>evs. new_events s (snd (ingest e f s)) =
           Log INFO ''Creating vector DB from file upload'' #
           (if chroma_db s = NoDir then []
            else if rmtree_create_ok e
            then [Rmtree ''chroma_db'' True, Log INFO ''Removed existing chroma_db'', Sleep 500]
            else [Rmtree ''chroma_db'' False,
                  Log WARNING ''Could not remove existing directory'']) @ evs"
    and "\<not> build_step_fails e f s"
proof -
  let ?s1 = "s\<lparr>file_upload := Some f\<rparr>"
  have v: "vector_db s = Some None"
  proof (cases "vector_db s")
    case None
    then show ?thesis using assms(2) by (simp add: ingest_absent)
  next
    case (Some v)
    then show ?thesis using assms(1) by (cases v) (simp_all add: index_ready_def)
  qed
  obtain r t where c: "create_vector_db e f ?s1 = (r, t)" by fastforce
  then obtain h where r: "r = Inr h" and s': "snd (ingest e f s) = t\<lparr>vector_db := Some (Some h)\<rparr>"
    using assms(2) v by (cases r) (auto simp: ingest_not_ready)
  note ok = create_succeeds [OF c [unfolded r]]
  show "index_ready (snd (ingest e f s))" using s' by (simp add: index_ready_def)
  show "search_space (snd (ingest e f s)) =
           (if chroma_db s = NoDir \<or> rmtree_create_ok e then [] else search_space s) @
           chunks_of e f"
    using ok(5) s' by simp
  show "\<exists>evs. new_events s (snd (ingest e f s)) =
           Log INFO ''Creating vector DB from file upload'' #
           (if chroma_db s = NoDir then []
            else if rmtree_create_ok e
            then [Rmtree ''chroma_db'' True, Log INFO ''Removed existing chroma_db'', Sleep 500]
            else [Rmtree ''chroma_db'' False,
                  Log WARNING ''Could not remove existing directory'']) @ evs"
    using create_events [of e f ?s1] c s' by (auto simp: new_events_def)
  show "\<not> build_step_fails e f s"
    using ingest_blocked [OF assms(1), of e f] assms(2) by auto
qed

text \<open>
  C1, as the code has it. Lines 272 to 276 ingest an upload only while the session holds
  no index: with an index in the session, \<^verbatim>\<open>ingest\<close> builds nothing and leaves the directory
  and the handle as they are. Without one, \<^verbatim>\<open>create_vector_db\<close> runs. In a process whose
  client is already open, the build raises when the directory is absent or is removed at
  line 88. When the build goes through, the session holds an index afterwards and every
  chunk of the upload has the name of the upload as its source; when the directory was
  absent or its removal succeeded, the removal is the first thing done and what a search
  can return is exactly the chunks of the new document; when the removal failed, the
  warning is logged, the build proceeds on the existing directory, and what a search can
  return is what it could return before followed by the chunks of the new document.
\<close>

theorem ingest_replaces_index:
  "(index_ready s \<longrightarrow> ingest e f s = (Inr (), s\<lparr>file_upload := Some f\<rparr>)) \<and>
   (\<not> index_ready s \<and> client_cached s \<and> (chroma_db s = NoDir \<or> rmtree_create_ok e) \<longrightarrow>
      isl (fst (ingest e f s))) \<and>
   (\<not> index_ready s \<and> fst (ingest e f s) = Inr () \<longrightarrow>
      index_ready (snd (ingest e f s)) \<and>
      chunks_of e f \<noteq> [] \<and>
      list_all (\<lambda>d. doc_source d = up_name f) (chunks_of e f) \<and>
      (chroma_db s = NoDir \<or> rmtree_create_ok e \<longrightarrow>
         search_space (snd (ingest e f s)) = chunks_of e f) \<and>
      (chroma_db s \<noteq> NoDir \<and> rmtree_create_ok e \<longrightarrow>
         (\<exists>evs. new_events s (snd (ingest e f s)) =
            [Log INFO ''Creating vector DB from file upload'', Rmtree ''chroma_db'' True,
             Log INFO ''Removed existing chroma_db'', Sleep 500] @ evs)) \<and>
      (chroma_db s \<noteq> NoDir \<and> \<not> rmtree_create_ok e \<longrightarrow>
         (\<exists>evs. new_events s (snd (ingest e f s)) =
            [Log INFO ''Creating vector DB from file upload'', Rmtree ''chroma_db'' False,
             Log WARNING ''Could not remove existing directory''] @ evs) \<and>
         search_space (snd (ingest e f s)) = search_space s @ chunks_of e f))"
proof (intro conjI impI)
  assume "index_ready s"
  then obtain h where "vector_db s = Some (Some h)"
    by (auto simp: index_ready_def split: option.splits)
  then show "ingest e f s = (Inr (), s\<lparr>file_upload := Some f\<rparr>)" by (rule ingest_ready)
next
  assume a: "\<not> index_ready s \<and> client_cached s \<and> (chroma_db s = NoDir \<or> rmtree_create_ok e)"
  then have "build_step_fails e f s" by (simp add: build_step_fails_def)
  with a show "isl (fst (ingest e f s))" by (intro ingest_blocked) simp_all
next
  assume a: "\<not> index_ready s \<and> fst (ingest e f s) = Inr ()"
  then have n: "\<not> index_ready s" and r: "fst (ingest e f s) = Inr ()" by simp_all
  note b = ingest_built [OF n r]
  show "index_ready (snd (ingest e f s))" by (rule b(1))
  show "chunks_of e f \<noteq> []" using b(4) by (simp add: build_step_fails_def)
  show "list_all (\<lambda>d. doc_source d = up_name f) (chunks_of e f)" by (rule sources_chunks_of)
  show "search_space (snd (ingest e f s)) = chunks_of e f"
    if "chroma_db s = NoDir \<or> rmtree_create_ok e"
    using b(2) that by auto
  show "\<exists>evs. new_events s (snd (ingest e f s)) =
            [Log INFO ''Creating vector DB from file upload'', Rmtree ''chroma_db'' True,
             Log INFO ''Removed existing chroma_db'', Sleep 500] @ evs"
    if "chroma_db s \<noteq> NoDir \<and> rmtree_create_ok e"
    using b(3) that by auto
  show "\<exists>evs. new_events s (snd (ingest e f s)) =
            [Log INFO ''Creating vector DB from file upload'', Rmtree ''chroma_db'' False,
             Log WARNING ''Could not remove existing directory''] @ evs"
    if "chroma_db s \<noteq> NoDir \<and> \<not> rmtree_create_ok e"
    using b(3) that by auto
  show "search_space (snd (ingest e f s)) = search_space s @ chunks_of e f"
    if "chroma_db s \<noteq> NoDir \<and> \<not> rmtree_create_ok e"
    using b(2) that by auto
qed

lemma stale_eq:
  "stale =
     \<lparr>messages = Some [], vector_db = Some None, file_upload = None, pdf_pages = None,
      chroma_db = Dir (Some [(\<lparr>page_content = ''alpha'', doc_source = ''a.pdf''\<rparr>, [])]),
      tmp = [], client_cached = True,
      events = [Log INFO ''Creating vector DB from file upload'',
                Log INFO ''File saved to temporary path'',
                Log INFO ''Extracting text from PDF'',
                Log INFO ''Document split into chunks'',
                Log INFO ''Vector DB created and persisted'',
                Log INFO ''Temporary directory removed'',
                Log INFO ''Extracting all pages as images from file'',
                Log INFO ''PDF pages extracted as images'',
                Log INFO ''Deleting vector DB'',
                Log ERROR ''Error cleaning up chroma_db'', Sleep 2000,
                Rmtree ''chroma_db'' False,
                Log ERROR ''Failed to remove chroma_db directory after retry'',
                StSuccess ''Collection and temporary files deleted successfully.'',
                Log INFO ''Vector DB and related session state cleared'',
                Sleep 1000]\<rparr>"
  by (simp add: stale_def indexed_eq fixture_defs init_session_def delete_defs effect_defs Let_def)

lemma restarted_eq:
  "restarted =
     \<lparr>messages = Some [], vector_db = Some None, file_upload = None, pdf_pages = None,
      chroma_db = Dir (Some [(\<lparr>page_content = ''alpha'', doc_source = ''a.pdf''\<rparr>, [])]),
      tmp = [], client_cached = False, events = []\<rparr>"
  by (simp add: restarted_def indexed_eq fresh_def init_session_def)

lemma chunks_of_doc2:
  "chunks_of all_ok doc2 = [\<lparr>page_content = ''beta'', doc_source = ''b.pdf''\<rparr>]"
  "chunks_of files_locked doc2 = [\<lparr>page_content = ''beta'', doc_source = ''b.pdf''\<rparr>]"
  by (simp_all add: chunks_of_def extract_text_from_pdf_def split_documents_def fixture_defs)

lemma ingest_restarted: "fst (ingest all_ok doc2 restarted) = Inr ()"
  by (simp add: restarted_eq fixture_defs ingest_def create_defs effect_defs Let_def)

lemma ingest_stale_locked: "fst (ingest files_locked doc2 stale) = Inr ()"
  by (simp add: stale_eq fixture_defs ingest_def create_defs effect_defs Let_def)

text \<open>
  The statement at concrete inputs: the second document uploaded to the session that
  holds the first; uploaded in the same process after a deletion that left the directory,
  with the removal at line 88 succeeding (the build raises) and failing (the build adds to
  the collection of the first); and uploaded in a new process started on the directory of
  the first (only the second document can be found).
\<close>

theorem ingest_replaces_index_witness:
  "index_ready indexed \<and>
   ingest all_ok doc2 indexed = (Inr (), indexed\<lparr>file_upload := Some doc2\<rparr>) \<and>
   \<not> index_ready stale \<and> client_cached stale \<and> rmtree_create_ok all_ok \<and>
   isl (fst (ingest all_ok doc2 stale)) \<and>
   \<not> index_ready restarted \<and> chroma_db restarted \<noteq> NoDir \<and>
   fst (ingest all_ok doc2 restarted) = Inr () \<and>
   index_ready (snd (ingest all_ok doc2 restarted)) \<and>
   search_space (snd (ingest all_ok doc2 restarted)) =
     [\<lparr>page_content = ''beta'', doc_source = ''b.pdf''\<rparr>] \<and>
   (\<exists>evs. new_events restarted (snd (ingest all_ok doc2 restarted)) =
      [Log INFO ''Creating vector DB from file upload'', Rmtree ''chroma_db'' True,
       Log INFO ''Removed existing chroma_db'', Sleep 500] @ evs) \<and>
   chroma_db stale \<noteq> NoDir \<and> \<not> rmtree_create_ok files_locked \<and>
   fst (ingest files_locked doc2 stale) = Inr () \<and>
   (\<exists>evs. new_events stale (snd (ingest files_locked doc2 stale)) =
      [Log INFO ''Creating vector DB from file upload'', Rmtree ''chroma_db'' False,
       Log WARNING ''Could not remove existing directory''] @ evs) \<and>
   search_space (snd (ingest files_locked doc2 stale)) =
     search_space stale @ [\<lparr>page_content = ''beta'', doc_source = ''b.pdf''\<rparr>]"
proof -
  have r: "index_ready indexed" by (simp add: index_ready_def indexed_eq)
  have n: "\<not> index_ready stale" "client_cached stale" "chroma_db stale \<noteq> NoDir"
    "rmtree_create_ok all_ok" "\<not> rmtree_create_ok files_locked"
    by (simp_all add: index_ready_def stale_eq all_ok_def files_locked_def)
  have m: "\<not> index_ready restarted" "chroma_db restarted \<noteq> NoDir"
    by (simp_all add: index_ready_def restarted_eq)
  note a = ingest_replaces_index [of indexed all_ok doc2]
  note b = ingest_replaces_index [of stale all_ok doc2]
  note c = ingest_replaces_index [of restarted all_ok doc2]
  note d = ingest_replaces_index [of stale files_locked doc2]
  have 1: "ingest all_ok doc2 indexed = (Inr (), indexed\<lparr>file_upload := Some doc2\<rparr>)"
    using a r by simp
  have 2: "isl (fst (ingest all_ok doc2 stale))"
    using b n by simp
  have 3: "index_ready (snd (ingest all_ok doc2 restarted))"
    "search_space (snd (ingest all_ok doc2 restarted)) =
       [\<lparr>page_content = ''beta'', doc_source = ''b.pdf''\<rparr>]"
    "\<exists>evs. new_events restarted (snd (ingest all_ok doc2 restarted)) =
      [Log INFO ''Creating vector DB from file upload'', Rmtree ''chroma_db'' True,
       Log INFO ''Removed existing chroma_db'', Sleep 500] @ evs"
    using c m n(4) ingest_restarted by (simp_all add: chunks_of_doc2)
  have 4: "\<exists>evs. new_events stale (snd (ingest files_locked doc2 stale)) =
      [Log INFO ''Creating vector DB from file upload'', Rmtree ''chroma_db'' False,
       Log WARNING ''Could not remove existing directory''] @ evs"
    "search_space (snd (ingest files_locked doc2 stale)) =
       search_space stale @ [\<lparr>page_content = ''beta'', doc_source = ''b.pdf''\<rparr>]"
    using d n ingest_stale_locked by (simp_all add: chunks_of_doc2)
  show ?thesis
    using r n m 1 2 3 4 ingest_restarted ingest_stale_locked by - (intro conjI; assumption)
qed

text \<open>
  C1 as stated fails. After the first document was ingested, a run of \<^verbatim>\<open>main\<close> with the
  second document uploaded builds nothing, and the search space is still the chunk of the
  first. And when the deletion in between and the removal at line 88 both fail on locked
  files, the second build adds to the collection of the first.
\<close>

theorem stale_index_counterexample:
  "index_ready indexed \<and>
   fst (main all_ok (upload_of doc2) indexed) = Finished \<and>
   map doc_source (search_space (snd (main all_ok (upload_of doc2) indexed))) = [''a.pdf''] \<and>
   map doc_source (search_space (snd (main store_locked (upload_of doc2)
      (snd (main store_locked (press_delete (Some doc1)) indexed))))) = [''a.pdf'', ''b.pdf'']"
  by (simp add: indexed_eq index_ready_def fixture_defs main_defs create_defs delete_defs
      effect_defs search_space_def collection_entries_def Let_def)

section \<open>A build that fails\<close>

lemma init_session_fields [simp]:
  "messages (init_session s) = Some (history s)"
  "vector_db (init_session s) = Some (case vector_db s of None \<Rightarrow> None | Some v \<Rightarrow> v)"
  "chroma_db (init_session s) = chroma_db s" "tmp (init_session s) = tmp s"
  "client_cached (init_session s) = client_cached s"
  "events (init_session s) = events s"
  "search_space (init_session s) = search_space s"
  "build_step_fails e f (init_session s) = build_step_fails e f s"
  by (simp_all add: init_session_def history_def search_space_def collection_entries_def
      build_step_fails_def split: option.splits)

lemma init_session_not_ready:
  "\<not> index_ready s \<Longrightarrow> vector_db (init_session s) = Some None"
  by (simp add: index_ready_def split: option.splits)








section \<open>A question before the build\<close>

lemma main_chat_only:
  "w_upload w = None \<Longrightarrow> \<not> w_delete w \<Longrightarrow> main e w s = chat_section e w (init_session s)"
  by (simp add: main_def Let_def)

lemma chat_not_ready:
  assumes "messages s = Some ms" and "vector_db s = Some None" and "w_prompt w = Some (c # cs)"
  shows "chat_section e w s =
           (Finished,
            s\<lparr>messages := Some (ms @ [\<lparr>msg_role = User, msg_content = c # cs\<rparr>]),
              events := events s @ map (\<lambda>m. ChatMessage (msg_role m) (msg_content m)) ms @
                 [ChatMessage User (c # cs), StWarning ''Please upload a PDF file first.'']\<rparr>)"
  using assms
  by (simp add: chat_section_def answer_prompt_def append_message_def emit_def Let_def)

text \<open>
  C6. A prompt entered while the session holds no index is not answered: the run draws the
  history and the prompt, shows the warning \<^verbatim>\<open>Please upload a PDF file first.\<close> and ends;
  \<^verbatim>\<open>process_question\<close> is not called, so neither the retriever's query expansion nor the
  chat model is asked. The prompt is appended to the history and the session still holds
  no index.
\<close>

theorem ask_before_build:
  assumes "\<not> index_ready s" and "w_upload w = None" and "\<not> w_delete w"
    and "w_prompt w = Some p" and "p \<noteq> []"
  shows "fst (main e w s) = Finished \<and>
         new_events s (snd (main e w s)) =
           map (\<lambda>m. ChatMessage (msg_role m) (msg_content m)) (history s) @
           [ChatMessage User p, StWarning ''Please upload a PDF file first.''] \<and>
         \<not> list_ex is_model_call (new_events s (snd (main e w s))) \<and>
         history (snd (main e w s)) = history s @ [\<lparr>msg_role = User, msg_content = p\<rparr>] \<and>
         \<not> index_ready (snd (main e w s))"
proof -
  obtain c cs where p: "p = c # cs" using assms(5) by (cases p) auto
  have m: "messages (init_session s) = Some (history s)" by simp
  have v: "vector_db (init_session s) = Some None"
    using assms(1) by (rule init_session_not_ready)
  have calls: "\<not> list_ex is_model_call (map (\<lambda>m. ChatMessage (msg_role m) (msg_content m)) ms)"
    for ms by (induction ms) simp_all
  show ?thesis
    using chat_not_ready [OF m v, of w c cs e] assms(2,3,4) p calls v
    by (simp add: main_chat_only new_events_def history_def index_ready_def list_ex_append
        del: init_session_fields(2))
qed

text \<open>The statement at a concrete input: the prompt \<open>x\<close> in a fresh process.\<close>

theorem ask_before_build_witness:
  "\<not> index_ready fresh \<and> w_prompt (say ''x'') = Some ''x'' \<and>
   fst (main all_ok (say ''x'') fresh) = Finished \<and>
   new_events fresh (snd (main all_ok (say ''x'') fresh)) =
     [ChatMessage User ''x'', StWarning ''Please upload a PDF file first.''] \<and>
   \<not> list_ex is_model_call (new_events fresh (snd (main all_ok (say ''x'') fresh))) \<and>
   \<not> index_ready (snd (main all_ok (say ''x'') fresh))"
proof -
  have a: "\<not> index_ready fresh" by (simp add: index_ready_def fresh_def)
  have b: "w_upload (say ''x'') = None" "\<not> w_delete (say ''x'')"
    "w_prompt (say ''x'') = Some ''x''" "''x'' \<noteq> []"
    by (simp_all add: say_def)
  have h: "history fresh = []" by (simp add: history_def fresh_def)
  show ?thesis using ask_before_build [OF a b, of all_ok] a b h by simp
qed

section \<open>The retry of the cleanup\<close>

text \<open>
  C7, as the code has it. When the first attempt of \<^verbatim>\<open>delete_vector_db\<close> to clean up an
  existing directory fails (the client, \<^verbatim>\<open>delete_collection\<close> or \<^verbatim>\<open>rmtree\<close> raises), the
  error is logged, the operation sleeps 2 seconds and calls \<^verbatim>\<open>rmtree\<close> exactly once more;
  at most one \<^verbatim>\<open>rmtree\<close> came before. Whether or not the retry succeeds, the operation
  then clears the session keys and reports success: a failed retry is logged, not
  surfaced, and the directory is gone exactly when the retry succeeded.
\<close>

theorem retry_once_then_swallow:
  "chroma_db s \<noteq> NoDir \<Longrightarrow> \<not> fst (first_attempt e s) \<Longrightarrow>
     (\<exists>pre. new_events s (delete_vector_db e s) =
           pre @ [Log ERROR ''Error cleaning up chroma_db'', Sleep 2000,
                  Rmtree ''chroma_db'' (rmtree_retry_ok e),
                  (if rmtree_retry_ok e
                   then Log INFO ''Removed chroma_db directory after retry''
                   else Log ERROR ''Failed to remove chroma_db directory after retry''),
                  StSuccess ''Collection and temporary files deleted successfully.'',
                  Log INFO ''Vector DB and related session state cleared'', Sleep 1000]
           \<and> length (filter is_rmtree pre) \<le> 1)
     \<and> reports_success s (delete_vector_db e s)
     \<and> vector_db (delete_vector_db e s) = None
     \<and> (chroma_db (delete_vector_db e s) = NoDir) = rmtree_retry_ok e"
  using retry_events [of s e] retry_storage [of s e] delete_reports_success [of s e]
    delete_clears_session(1) [of e s]
  by simp

text \<open>
  The statement at a concrete input: the index of the first document, with every removal
  of the directory failing.
\<close>

theorem retry_once_then_swallow_witness:
  "chroma_db indexed \<noteq> NoDir \<and> \<not> fst (first_attempt files_locked indexed) \<and>
     (\<exists>pre. new_events indexed (delete_vector_db files_locked indexed) =
           pre @ [Log ERROR ''Error cleaning up chroma_db'', Sleep 2000,
                  Rmtree ''chroma_db'' (rmtree_retry_ok files_locked),
                  (if rmtree_retry_ok files_locked
                   then Log INFO ''Removed chroma_db directory after retry''
                   else Log ERROR ''Failed to remove chroma_db directory after retry''),
                  StSuccess ''Collection and temporary files deleted successfully.'',
                  Log INFO ''Vector DB and related session state cleared'', Sleep 1000]
           \<and> length (filter is_rmtree pre) \<le> 1)
     \<and> reports_success indexed (delete_vector_db files_locked indexed)
     \<and> vector_db (delete_vector_db files_locked indexed) = None
     \<and> (chroma_db (delete_vector_db files_locked indexed) = NoDir) = rmtree_retry_ok files_locked"
proof -
  have a: "chroma_db indexed \<noteq> NoDir"
    by (simp add: indexed_eq)
  have b: "\<not> fst (first_attempt files_locked indexed)"
    by (simp add: indexed_eq fixture_defs first_attempt_def remove_directory_def rmtree_def)
  show ?thesis using retry_once_then_swallow [OF a b] a b by blast
qed

text \<open>
  C7 as stated fails: with the files of the directory locked, both removals fail, and the
  operation still shows the success message, shows no error and leaves the directory.
\<close>

theorem retry_swallowed_counterexample:
  "chroma_db indexed \<noteq> NoDir \<and>
   new_events indexed (delete_vector_db files_locked indexed) =
     [Log INFO ''Deleting vector DB'', Log INFO ''Deleted myRAG collection'',
      Rmtree ''chroma_db'' False, Log ERROR ''Error cleaning up chroma_db'', Sleep 2000,
      Rmtree ''chroma_db'' False,
      Log ERROR ''Failed to remove chroma_db directory after retry'',
      StSuccess ''Collection and temporary files deleted successfully.'',
      Log INFO ''Vector DB and related session state cleared'', Sleep 1000] \<and>
   \<not> list_ex is_error (new_events indexed (delete_vector_db files_locked indexed)) \<and>
   chroma_db (delete_vector_db files_locked indexed) \<noteq> NoDir"
  by (simp add: indexed_eq fixture_defs delete_defs effect_defs new_events_def Let_def)

section \<open>Properties of the conversation history\<close>

lemma create_keeps_messages: "messages (snd (create_vector_db e f s)) = messages s"
proof (cases "create_vector_db e f s")
  case (Pair r t)
  then show ?thesis
    using create_fails(2) [of e f s _ t] create_succeeds(2) [of e f s _ t] by (cases r) simp_all
qed

lemma ingest_keeps_messages: "messages (snd (ingest e f s)) = messages s"
  using create_keeps_messages [of e f "s\<lparr>file_upload := Some f\<rparr>"]
  by (auto simp: ingest_def Let_def split: option.splits sum.splits prod.splits)

lemma extract_pages_keeps_messages:
  "messages (snd (extract_all_pages_as_images e f s)) = messages s"
  by (simp add: extract_all_pages_as_images_def Let_def split: pdf.splits)

lemma upload_keeps_messages: "messages (snd (upload_section e f s)) = messages s"
proof (cases "ingest e f s")
  case (Pair r t)
  then have t: "messages t = messages s"
    using ingest_keeps_messages [of e f s] by simp
  show ?thesis
  proof (cases r)
    case (Inl err)
    then show ?thesis using Pair t by (simp add: upload_section_def)
  next
    case (Inr u)
    obtain r' t' where x: "extract_all_pages_as_images e f t = (r', t')"
      by (cases "extract_all_pages_as_images e f t")
    then have "messages t' = messages s"
      using extract_pages_keeps_messages [of e f t] t by simp
    then show ?thesis using Pair Inr x by (cases r') (simp_all add: upload_section_def)
  qed
qed

lemma process_keeps_messages:
  "process_question e q m s = (r, t) \<Longrightarrow> messages t = messages s"
  by (auto simp: process_question_def effect_defs Let_def split: sum.splits)

lemma answer_prompt_history:
  "answer_prompt e w p s = Inl (err, t) \<Longrightarrow> prefix (history s) (history t)"
  "answer_prompt e w p s = Inr t \<Longrightarrow> prefix (history s) (history t)"
  by (auto simp: answer_prompt_def append_message_def history_def emit_def Let_def
      dest!: process_keeps_messages
      split: option.splits sum.splits prod.splits)

lemma history_events [simp]:
  "history (s\<lparr>events := evs\<rparr>) = history s"
  "history (emit ev s) = history s"
  "history (logger l m s) = history s"
  by (simp_all add: history_def)

lemma chat_history: "prefix (history s) (history (snd (chat_section e w s)))"
proof (cases "messages s")
  case None
  then show ?thesis by (simp add: chat_section_def)
next
  case (Some ms)
  let ?s1 = "s\<lparr>events := events s @ map (\<lambda>m. ChatMessage (msg_role m) (msg_content m)) ms\<rparr>"
  show ?thesis
  proof (cases "w_prompt w")
    case None
    then show ?thesis using Some
      by (simp add: chat_section_def Let_def split: option.splits)
  next
    case (Some p)
    note prompt = this
    show ?thesis
    proof (cases p)
      case Nil
      then show ?thesis using prompt \<open>messages s = Some ms\<close>
        by (simp add: chat_section_def Let_def split: option.splits)
    next
      case (Cons c cs)
      show ?thesis
      proof (cases "answer_prompt e w (c # cs) ?s1")
        case (Inl a)
        then obtain err t where "answer_prompt e w (c # cs) ?s1 = Inl (err, t)"
          by (cases a) simp
        then show ?thesis
          using answer_prompt_history(1) [of e w "c # cs" ?s1 err t] prompt Cons
            \<open>messages s = Some ms\<close>
          by (simp add: chat_section_def Let_def)
      next
        case (Inr t)
        then show ?thesis
          using answer_prompt_history(2) [of e w "c # cs" ?s1 t] prompt Cons
            \<open>messages s = Some ms\<close>
          by (simp add: chat_section_def Let_def)
      qed
    qed
  qed
qed

text \<open>
  C8, as the code has it. The conversation history is append-only: after any run of
  \<^verbatim>\<open>main\<close>, whatever the widgets and the environment, the history before the run is a
  prefix of the history after it. Deleting the index does not clear it:
  \<^verbatim>\<open>delete_vector_db\<close> leaves the messages as they are.
\<close>

theorem history_append_only:
  "prefix (history s) (history (snd (main e w s))) \<and>
   messages (delete_vector_db e s) = messages s"
proof -
  have init: "history (init_session s) = history s"
    by (simp add: history_def)
  have up: "history (snd (upload_section e f (init_session s))) = history s" for f
    using upload_keeps_messages [of e f "init_session s"] init by (simp add: history_def)
  have del: "history (delete_vector_db e t) = history t" for t
    by (simp add: history_def delete_keeps_messages)
  have "prefix (history s) (history (snd (main e w s)))"
  proof (cases "w_upload w")
    case None
    then show ?thesis
      using chat_history [of "init_session s" e w] init
      by (simp add: main_def Let_def del)
  next
    case (Some f)
    then show ?thesis
      using chat_history [of "snd (upload_section e f (init_session s))" e w] up [of f]
      by (auto simp: main_def Let_def del split: prod.splits sum.splits)
  qed
  then show ?thesis by (simp add: delete_keeps_messages)
qed

text \<open>
  C8 as stated fails: after a question was answered, pressing the delete button leaves
  both turns of the conversation in the history.
\<close>

theorem history_not_cleared_counterexample:
  "history (snd (main all_ok (say ''hi'') indexed))
     = [\<lparr>msg_role = User, msg_content = ''hi''\<rparr>, \<lparr>msg_role = Assistant, msg_content = ''answer''\<rparr>] \<and>
   fst (main all_ok (press_delete (Some doc1)) (snd (main all_ok (say ''hi'') indexed))) = Rerun \<and>
   history (snd (main all_ok (press_delete (Some doc1)) (snd (main all_ok (say ''hi'') indexed))))
     = [\<lparr>msg_role = User, msg_content = ''hi''\<rparr>, \<lparr>msg_role = Assistant, msg_content = ''answer''\<rparr>]"
  by (simp add: indexed_eq history_def fixture_defs main_defs delete_defs effect_defs search_space_def collection_entries_def Let_def)

section \<open>Properties of the Chunker of the specification\<close>

lemma windows_hd:
  "\<exists>ws. windows n m ov s = (s, if ov < m \<and> s + m < n then m else n - s) # ws"
  by (subst windows.simps) simp

lemma windows_cover:
  "ov < m \<Longrightarrow> length T = n \<Longrightarrow>
     \<exists>w ws. windows n m ov s = w # ws \<and>
       span T (mk_chunk src w) @ without_overlaps T (mk_chunk src w) (map (mk_chunk src) ws)
         = drop s T"
proof (induction n m ov s rule: windows.induct)
  case (1 n m ov s)
  show ?case
  proof (cases "s + m < n")
    case False
    then have "windows n m ov s = [(s, n - s)]"
      by (subst windows.simps) simp
    then show ?thesis using "1.prems" by (simp add: span_def mk_chunk_def)
  next
    case True
    let ?s' = "s + (m - ov)"
    let ?l' = "if ov < m \<and> ?s' + m < n then m else n - ?s'"
    from "1.IH" True "1.prems" obtain w' ws' where
      w': "windows n m ov ?s' = w' # ws'" and
      cov: "span T (mk_chunk src w') @ without_overlaps T (mk_chunk src w') (map (mk_chunk src) ws')
              = drop ?s' T"
      by blast
    from windows_hd [of n m ov ?s'] w' have hd: "w' = (?s', ?l')" by auto
    have long: "ov \<le> length (span T (mk_chunk src w'))"
      using True "1.prems" hd by (auto simp: span_def mk_chunk_def)
    have sh: "shared (mk_chunk src (s, m)) (mk_chunk src w') = ov"
      using "1.prems" hd by (simp add: shared_def mk_chunk_def)
    have unfold: "windows n m ov s = (s, m) # w' # ws'"
      using True "1.prems" w' by (subst windows.simps) simp
    have "drop ov (span T (mk_chunk src w')) @ without_overlaps T (mk_chunk src w') (map (mk_chunk src) ws')
            = drop ov (drop ?s' T)"
      using long cov by (metis drop_append diff_is_0_eq drop0)
    also have "\<dots> = drop m (drop s T)"
      using "1.prems" by (simp add: add.commute)
    finally have rest: "drop ov (span T (mk_chunk src w')) @ without_overlaps T (mk_chunk src w') (map (mk_chunk src) ws')
            = drop m (drop s T)" .
    have "span T (mk_chunk src (s, m)) @ without_overlaps T (mk_chunk src (s, m)) (map (mk_chunk src) (w' # ws'))
            = take m (drop s T) @ (drop ov (span T (mk_chunk src w')) @ without_overlaps T (mk_chunk src w') (map (mk_chunk src) ws'))"
      using sh by (simp add: span_def mk_chunk_def)
    also have "\<dots> = take m (drop s T) @ drop m (drop s T)"
      by (simp only: rest)
    also have "\<dots> = drop s T"
      by (rule append_take_drop_id)
    finally show ?thesis using unfold by simp
  qed
qed

lemma split_cover:
  "ov < m \<Longrightarrow> \<exists>cs. split tb m ov = Inr cs \<and> reconstruct (tb_text tb) cs = tb_text tb"
  using windows_cover [of ov m "tb_text tb" "length (tb_text tb)" 0 "tb_source tb"]
  by (auto simp: split_def reconstruct_def)

text \<open>
  C3, for the Chunker of the specification. For every text block the configured Chunker
  returns chunks, and their spans put together, each without the part it shares with its
  predecessor, are the text.
\<close>

theorem chunks_cover_text:
  "\<exists>cs. chunker tb = Inr cs \<and> reconstruct (tb_text tb) cs = tb_text tb"
  unfolding chunker_def by (rule split_cover) simp

lemma windows_consecutive:
  "ov < m \<Longrightarrow> Suc i < length (windows n m ov s) \<Longrightarrow>
     snd (windows n m ov s ! i) = m \<and>
     fst (windows n m ov s ! i) + m = fst (windows n m ov s ! Suc i) + ov \<and>
     ov < snd (windows n m ov s ! Suc i) \<and>
     fst (windows n m ov s ! Suc i) + snd (windows n m ov s ! Suc i) \<le> n"
proof (induction n m ov s arbitrary: i rule: windows.induct)
  case (1 n m ov s)
  show ?case
  proof (cases "s + m < n")
    case False
    then have "windows n m ov s = [(s, n - s)]"
      by (subst windows.simps) simp
    with "1.prems" show ?thesis by simp
  next
    case True
    let ?s' = "s + (m - ov)"
    have unfold: "windows n m ov s = (s, m) # windows n m ov ?s'"
      using True "1.prems" by (subst windows.simps) simp
    show ?thesis
    proof (cases i)
      case 0
      from windows_hd [of n m ov ?s'] obtain ws where
        "windows n m ov ?s' = (?s', if ov < m \<and> ?s' + m < n then m else n - ?s') # ws" ..
      then show ?thesis using 0 unfold True "1.prems" by auto
    next
      case (Suc j)
      then have "Suc j < length (windows n m ov ?s')"
        using "1.prems" unfold by simp
      from "1.IH" [OF _ "1.prems"(1) this] True "1.prems"
      show ?thesis using Suc unfold by simp
    qed
  qed
qed

text \<open>
  C4, for the Chunker of the specification. Any two consecutive chunks of the configured
  Chunker share exactly 100 units: the span of the earlier one ends 100 units after the
  later one starts, and the last 100 units of the earlier span are the first 100 units of
  the later span. This holds for the last chunk as well.
\<close>

theorem consecutive_chunks_overlap:
  assumes "chunker tb = Inr cs" and "Suc i < length cs"
  shows "shared (cs ! i) (cs ! Suc i) = 100 \<and>
         length (take 100 (span (tb_text tb) (cs ! Suc i))) = 100 \<and>
         drop (chunk_length (cs ! i) - 100) (span (tb_text tb) (cs ! i))
           = take 100 (span (tb_text tb) (cs ! Suc i))"
proof -
  let ?T = "tb_text tb"
  let ?ws = "windows (length ?T) 7500 100 0"
  from assms(1) have cs: "cs = map (mk_chunk (tb_source tb)) ?ws"
    by (simp add: chunker_def split_def)
  with assms(2) have len: "Suc i < length ?ws" by simp
  obtain a la where wi: "?ws ! i = (a, la)" by (cases "?ws ! i")
  obtain b lb where wj: "?ws ! Suc i = (b, lb)" by (cases "?ws ! Suc i")
  from windows_consecutive [OF _ len] wi wj
  have f: "la = 7500" "a + 7500 = b + 100" "100 < lb" "b + lb \<le> length ?T" by auto
  have ci: "cs ! i = mk_chunk (tb_source tb) (a, la)" using cs len wi by simp
  have cj: "cs ! Suc i = mk_chunk (tb_source tb) (b, lb)" using cs len wj by simp
  have b: "b = a + 7400" using f by arith
  have "shared (cs ! i) (cs ! Suc i) = 100"
    using ci cj f by (simp add: shared_def mk_chunk_def)
  moreover have "length (take 100 (span ?T (cs ! Suc i))) = 100"
    using cj f by (simp add: span_def mk_chunk_def)
  moreover have "drop (chunk_length (cs ! i) - 100) (span ?T (cs ! i))
           = take 100 (span ?T (cs ! Suc i))"
    using ci cj f b by (simp add: span_def mk_chunk_def drop_take min_def add.commute)
  ultimately show ?thesis by blast
qed

text \<open>
  C10, for the Chunker of the specification. A text shorter than 7500 units, the empty
  text included, yields exactly one chunk, which spans the whole text.
\<close>

theorem short_text_one_chunk:
  "length (tb_text tb) < 7500 \<Longrightarrow>
     chunker tb = Inr [\<lparr>start_offset = 0, chunk_length = length (tb_text tb),
                        chunk_source = tb_source tb\<rparr>]"
  by (simp add: chunker_def split_def mk_chunk_def windows.simps)

text \<open>The statement at a concrete input: the empty text.\<close>

theorem short_text_one_chunk_witness:
  "length (tb_text empty_text) < 7500 \<and>
   chunker empty_text = Inr [\<lparr>start_offset = 0, chunk_length = 0, chunk_source = ''a.pdf''\<rparr>]"
  using short_text_one_chunk [of empty_text] by (simp add: empty_text_def)

lemma chunker_long_text:
  "chunker long_text =
     Inr [\<lparr>start_offset = 0, chunk_length = 7500, chunk_source = ''a.pdf''\<rparr>,
          \<lparr>start_offset = 7400, chunk_length = 600, chunk_source = ''a.pdf''\<rparr>]"
  by (simp add: chunker_def split_def mk_chunk_def long_text_def windows.simps)

text \<open>The statement at a concrete input: a text of 8000 units, which has two chunks.\<close>

theorem consecutive_chunks_overlap_witness:
  "chunker long_text =
     Inr [\<lparr>start_offset = 0, chunk_length = 7500, chunk_source = ''a.pdf''\<rparr>,
          \<lparr>start_offset = 7400, chunk_length = 600, chunk_source = ''a.pdf''\<rparr>] \<and>
   shared \<lparr>start_offset = 0, chunk_length = 7500, chunk_source = ''a.pdf''\<rparr>
          \<lparr>start_offset = 7400, chunk_length = 600, chunk_source = ''a.pdf''\<rparr> = 100 \<and>
   drop 7400 (span (tb_text long_text) \<lparr>start_offset = 0, chunk_length = 7500, chunk_source = ''a.pdf''\<rparr>)
     = take 100 (span (tb_text long_text) \<lparr>start_offset = 7400, chunk_length = 600, chunk_source = ''a.pdf''\<rparr>)"
  using consecutive_chunks_overlap [OF chunker_long_text, of 0] chunker_long_text by simp

end
